theory Spec2Isabelle
  imports Main "HOL-Library.Word" "HOL-Library.AList"
begin

section \<open>Python values used by app.py\<close>

text \<open>
  A Python \<open>str\<close> is a sequence of Unicode code points, so it is modelled as a list of
  natural numbers; \<open>lit\<close> turns an ASCII literal of this theory into such a sequence.
  \<open>bytes\<close> are lists of octets.
\<close>

type_synonym str = "nat list"

type_synonym bytes = "8 word list"

abbreviation lit :: "string \<Rightarrow> str" where
  "lit cs \<equiv> map of_char cs"

text \<open>
  The values \<open>json.loads\<close> can return. \<open>PNone\<close> is Python's \<open>None\<close> (what JSON
  \<open>null\<close> decodes to), a float is its IEEE-754 binary64 bit pattern, and a \<open>dict\<close> is an
  association list in insertion order with distinct keys.
\<close>

datatype pyval =
    PNone
  | PBool bool
  | PInt int
  | PFloat "64 word"
  | PStr str
  | PList "pyval list"
  | PDict "(str \<times> pyval) list"

text \<open>
  The exceptions that can reach the code of app.py. \<open>ResourceExhausted\<close> is the provider's
  quota error; \<open>ProviderError c\<close> is any other exception class \<open>c\<close> raised by the
  provider call (network, authentication, malformed request, a blocked response, ...);
  \<open>ConversionError c\<close> is an exception class raised by pdf2image or by the JPEG encoder.
  Besides \<open>JSONDecodeError\<close>, \<open>json.loads\<close> can raise \<open>RecursionError\<close> (a text nested too
  deeply) and \<open>ValueError\<close> (an integer literal of more than 4300 digits); the handler at
  app.py:39 names neither.
\<close>

datatype exn =
    ResourceExhausted
  | ProviderError string
  | JSONDecodeError
  | RecursionError
  | ValueError
  | FileNotFoundError str
  | IndexError
  | AttributeError
  | TypeError
  | ConversionError string

datatype 'a outcome = Returns 'a | Raises exn

subsection \<open>String operations\<close>

text \<open>\<open>str.isspace\<close> for one code point: the characters \<open>str.strip()\<close> removes.\<close>

definition isspace :: "nat \<Rightarrow> bool" where
  "isspace c \<longleftrightarrow>
     (9 \<le> c \<and> c \<le> 13) \<or> (28 \<le> c \<and> c \<le> 32) \<or> c = 133 \<or> c = 160 \<or> c = 5760 \<or>
     (8192 \<le> c \<and> c \<le> 8202) \<or> c = 8232 \<or> c = 8233 \<or> c = 8239 \<or> c = 8287 \<or> c = 12288"

definition strip :: "str \<Rightarrow> str" where
  "strip s = rev (dropWhile isspace (rev (dropWhile isspace s)))"

definition startswith :: "str \<Rightarrow> str \<Rightarrow> bool" where
  "startswith s p \<longleftrightarrow> take (length p) s = p"

text \<open>
  A slice bound of Python: a negative bound counts from the end, and every bound is
  clipped to the sequence.
\<close>

definition slice_bound :: "nat \<Rightarrow> int \<Rightarrow> nat" where
  "slice_bound n i = (if i < 0 then nat (max 0 (int n + i)) else min n (nat i))"

definition py_slice :: "'a list \<Rightarrow> int \<Rightarrow> int \<Rightarrow> 'a list" where
  "py_slice xs i j = drop (slice_bound (length xs) i) (take (slice_bound (length xs) j) xs)"

text \<open>\<open>sep.join(parts)\<close> for a list of strings.\<close>

fun join_strs :: "str \<Rightarrow> str list \<Rightarrow> str" where
  "join_strs sep [] = []"
| "join_strs sep [x] = x"
| "join_strs sep (x # y # ys) = x @ sep @ join_strs sep (y # ys)"

text \<open>Truth value of a Python object in a condition (\<open>if response:\<close>).\<close>

fun truthy :: "pyval \<Rightarrow> bool" where
  "truthy PNone = False"
| "truthy (PBool b) = b"
| "truthy (PInt i) = (i \<noteq> 0)"
| "truthy (PFloat w) = (w \<noteq> 0 \<and> w \<noteq> 0x8000000000000000)"
| "truthy (PStr s) = (s \<noteq> [])"
| "truthy (PList xs) = (xs \<noteq> [])"
| "truthy (PDict kvs) = (kvs \<noteq> [])"

section \<open>The model client\<close>

text \<open>
  One \<open>model.generate_content\<close> request: the list \<open>[prompt, pdf_content[0],
  job_description]\<close> and the generation configuration. An encoded page image is the dict
  \<open>{"mime_type": ..., "data": ...}\<close>.
\<close>

type_synonym part = "(str \<times> str) list"

datatype content = Text str | Blob part

record request =
  contents :: "content list"
  generation_config :: "(str \<times> pyval) list"

text \<open>\<open>{"temperature": 0.2}\<close>; the double nearest to 0.2 is \<open>0x3FC999999999999A\<close>.\<close>

definition temperature_config :: "(str \<times> pyval) list" where
  "temperature_config = [(lit ''temperature'', PFloat 0x3FC999999999999A)]"

text \<open>
  What a run does to the outside, in order: provider calls, sleeps, the document
  converter's library calls, and the Streamlit output calls.
\<close>

datatype event =
    GenerateContent request
  | Sleep nat
  | ConvertFromBytes bytes
  | SetPageConfig str
  | Header str
  | Success str
  | Warning str
  | Spinner str
  | Subheader str
  | Write str
  | Error str

definition quota_message :: str where
  "quota_message =
     [0x26A0, 0xFE0F] @ lit '' Gemini API quota exceeded. Please wait a few seconds and try again.''"

text \<open>
  \<open>get_gemini_response\<close>. The parameter \<open>generate_content\<close> stands for the provider: what
  \<open>model.generate_content(...)\<close> followed by reading \<open>response.text\<close> does for a request,
  either the text or the exception raised. \<open>pdf_content[0]\<close> is evaluated inside the
  \<open>try\<close>, before the call, and raises \<open>IndexError\<close> on an empty list.
\<close>

definition get_gemini_response ::
  "(request \<Rightarrow> str outcome) \<Rightarrow> str \<Rightarrow> part list \<Rightarrow> str \<Rightarrow> str outcome \<times> event list" where
  "get_gemini_response generate_content prompt pdf_content job_description =
     (case pdf_content of
        [] \<Rightarrow> (Raises IndexError, [])
      | p # _ \<Rightarrow>
          (let req = \<lparr>contents = [Text prompt, Blob p, Text job_description],
                      generation_config = temperature_config\<rparr>
           in case generate_content req of
                Returns t \<Rightarrow> (Returns t, [GenerateContent req])
              | Raises e \<Rightarrow>
                  if e = ResourceExhausted
                  then (Returns quota_message, [GenerateContent req, Sleep 10])
                  else (Raises e, [GenerateContent req])))"

text \<open>
  \<open>get_gemini_response_keywords\<close>. \<open>loads\<close> stands for \<open>json.loads\<close>. The \<open>except\<close>
  clause covers the whole \<open>try\<close> body, so it catches the two classes wherever they are
  raised.
\<close>

definition fence_strip :: "str \<Rightarrow> str" where
  "fence_strip t = (let t1 = strip t in if startswith t1 (lit ''```'') then py_slice t1 7 (-3) else t1)"

definition get_gemini_response_keywords ::
  "(request \<Rightarrow> str outcome) \<Rightarrow> (str \<Rightarrow> pyval outcome) \<Rightarrow> str \<Rightarrow> part list \<Rightarrow> str
     \<Rightarrow> pyval outcome \<times> event list" where
  "get_gemini_response_keywords generate_content loads prompt pdf_content job_description =
     (case pdf_content of
        [] \<Rightarrow> (Raises IndexError, [])
      | p # _ \<Rightarrow>
          (let req = \<lparr>contents = [Text prompt, Blob p, Text job_description],
                      generation_config = temperature_config\<rparr>;
               body = (case generate_content req of
                         Returns t \<Rightarrow> loads (fence_strip t)
                       | Raises e \<Rightarrow> Raises e)
           in (case body of
                 Returns v \<Rightarrow> Returns v
               | Raises e \<Rightarrow>
                   if e = ResourceExhausted \<or> e = JSONDecodeError then Returns PNone
                   else Raises e,
               [GenerateContent req])))"

section \<open>A decoder for JSON text\<close>

text \<open>
  \<open>json.loads\<close> is a library function; the functions of app.py take it as a parameter.
  Where a concrete decoder is needed, to evaluate the code on a concrete response, the
  following one is used. It follows the default decoder of the Python library: JSON
  whitespace is space, tab, line feed and carriage return; strings are read in strict mode
  (no control characters, the escapes \<open>\" \\ \/ \b \f \n \r \t \uXXXX\<close>, a surrogate pair of
  \<open>\uXXXX\<close> escapes joined into one code point); a number without fraction and exponent is
  an \<open>int\<close>, any other number is handed to \<open>parse_float\<close>; \<open>NaN\<close>, \<open>Infinity\<close> and
  \<open>-Infinity\<close> are accepted; a repeated key keeps its first position and its last value.
  The input is first cut into tokens, then a pushdown automaton builds the value; a text
  outside the grammar gives \<open>JSONDecodeError\<close>.

  Two limits of the interpreter are left out: \<open>json.loads\<close> gives up on a text nested
  deeper than the interpreter's stack allows (\<open>RecursionError\<close>) and on an integer literal
  of more than 4300 digits (\<open>ValueError\<close>), where this decoder goes on. So it stands for
  \<open>json.loads\<close> only on texts far from both limits, as the texts of a few characters
  decoded below are, and it is used on those texts only. Nothing is stated about it on
  other texts: every statement about all response texts is about an arbitrary \<open>loads\<close>,
  which may raise any exception.
\<close>

definition isdigit :: "nat \<Rightarrow> bool" where
  "isdigit c \<longleftrightarrow> 48 \<le> c \<and> c \<le> 57"

text \<open>The value of a hexadecimal digit, and of four of them.\<close>

definition hexval :: "nat \<Rightarrow> nat option" where
  "hexval c =
     (if 48 \<le> c \<and> c \<le> 57 then Some (c - 48)
      else if 97 \<le> c \<and> c \<le> 102 then Some (c - 87)
      else if 65 \<le> c \<and> c \<le> 70 then Some (c - 55)
      else None)"

definition hex4 :: "nat \<Rightarrow> nat \<Rightarrow> nat \<Rightarrow> nat \<Rightarrow> nat option" where
  "hex4 a b c d =
     (case (hexval a, hexval b, hexval c, hexval d) of
        (Some w, Some x, Some y, Some z) \<Rightarrow> Some (((w * 16 + x) * 16 + y) * 16 + z)
      | _ \<Rightarrow> None)"

text \<open>The character after a backslash, other than \<open>u\<close>.\<close>

definition unescape :: "nat \<Rightarrow> nat option" where
  "unescape e =
     (if e = 34 \<or> e = 92 \<or> e = 47 then Some e
      else if e = 98 then Some 8
      else if e = 102 then Some 12
      else if e = 110 then Some 10
      else if e = 114 then Some 13
      else if e = 116 then Some 9
      else None)"

definition hex4_at :: "str \<Rightarrow> (nat \<times> str) option" where
  "hex4_at s =
     (case s of
        h1 # h2 # h3 # h4 # r \<Rightarrow> map_option (\<lambda>u. (u, r)) (hex4 h1 h2 h3 h4)
      | _ \<Rightarrow> None)"

definition escape :: "str \<Rightarrow> (nat \<times> str) option" where
  "escape s =
     (case s of
        [] \<Rightarrow> None
      | e # es \<Rightarrow>
          if e = 117 then
            (case hex4_at es of
               None \<Rightarrow> None
             | Some (u, r) \<Rightarrow>
                 if 0xD800 \<le> u \<and> u \<le> 0xDBFF \<and> take 2 r = [92, 117] then
                   (case hex4_at (drop 2 r) of
                      None \<Rightarrow> None
                    | Some (u2, r2) \<Rightarrow>
                        if 0xDC00 \<le> u2 \<and> u2 \<le> 0xDFFF
                        then Some (0x10000 + (u - 0xD800) * 1024 + (u2 - 0xDC00), r2)
                        else Some (u, r))
                 else Some (u, r))
          else map_option (\<lambda>x. (x, es)) (unescape e))"

text \<open>Each scanner consumes input, which is what the termination proofs need.\<close>

lemma hex4_at_length: "hex4_at s = Some (u, r) \<Longrightarrow> length s = length r + 4"
  unfolding hex4_at_def by (auto split: list.splits)

lemma escape_shorter:
  assumes "escape s = Some (x, r)"
  shows "length r < length s"
proof (cases s)
  case Nil
  with assms show ?thesis by (simp add: escape_def)
next
  case (Cons e es)
  show ?thesis
  proof (cases "e = 117")
    case False
    with assms Cons show ?thesis by (auto simp: escape_def)
  next
    case True
    with assms Cons obtain u r1 where h: "hex4_at es = Some (u, r1)"
      by (auto simp: escape_def split: option.splits)
    have l1: "length es = length r1 + 4" by (rule hex4_at_length [OF h])
    show ?thesis
    proof (cases "0xD800 \<le> u \<and> u \<le> 0xDBFF \<and> take 2 r1 = [92, 117]")
      case False
      with assms Cons True h have "r = r1" by (auto simp: escape_def)
      with l1 Cons show ?thesis by simp
    next
      case sur: True
      with assms Cons True h obtain u2 r2 where h2: "hex4_at (drop 2 r1) = Some (u2, r2)"
        by (auto simp: escape_def split: option.splits)
      have l2: "length (drop 2 r1) = length r2 + 4" by (rule hex4_at_length [OF h2])
      from assms Cons True h sur h2 have "r = r2 \<or> r = r1"
        by (auto simp: escape_def split: if_splits)
      with l1 l2 Cons show ?thesis by auto
    qed
  qed
qed

text \<open>The body of a string, after its opening quote: the decoded text and the rest.\<close>

function scanstring :: "str \<Rightarrow> str \<Rightarrow> (str \<times> str) option" where
  "scanstring acc [] = None"
| "scanstring acc (c # cs) =
     (if c = 34 then Some (acc, cs)
      else if c = 92 then
        (case escape cs of
           None \<Rightarrow> None
         | Some (x, r) \<Rightarrow> scanstring (acc @ [x]) r)
      else if c \<le> 31 then None
      else scanstring (acc @ [c]) cs)"
  by pat_completeness auto
termination
  by (relation "measure (\<lambda>(acc, s). length s)") (auto dest: escape_shorter)

lemma scanstring_shorter:
  "scanstring acc s = Some (x, r) \<Longrightarrow> length r < length s"
proof (induction acc s rule: scanstring.induct)
  case (1 acc)
  then show ?case by simp
next
  case (2 acc c cs)
  show ?case
  proof (cases "c = 34")
    case True
    with "2.prems" show ?thesis by simp
  next
    case nq: False
    show ?thesis
    proof (cases "c = 92")
      case True
      with "2.prems" obtain y r1 where e: "escape cs = Some (y, r1)"
        and s: "scanstring (acc @ [y]) r1 = Some (x, r)"
        by (auto split: option.splits)
      from "2.IH"(1) [OF nq True e refl s] have "length r < length r1" .
      with escape_shorter [OF e] show ?thesis by simp
    next
      case False
      with nq "2.prems" have c: "\<not> c \<le> 31" and s: "scanstring (acc @ [c]) cs = Some (x, r)"
        by (auto split: if_splits)
      from "2.IH"(2) [OF nq False c s] show ?thesis by simp
    qed
  qed
qed

definition int_of_digits :: "str \<Rightarrow> int" where
  "int_of_digits ds = foldl (\<lambda>a d. a * 10 + (int d - 48)) 0 ds"


text \<open>
  A number: an optional sign, the integer digits, an optional fraction, an optional
  exponent (given up when no digit follows).
\<close>

definition int_part :: "str \<Rightarrow> (str \<times> str) option" where
  "int_part s =
     (case s of
        [] \<Rightarrow> None
      | c # cs \<Rightarrow>
          if 49 \<le> c \<and> c \<le> 57 then Some (c # takeWhile isdigit cs, dropWhile isdigit cs)
          else if c = 48 then Some ([c], cs)
          else None)"

definition frac_part :: "str \<Rightarrow> str \<times> str" where
  "frac_part s =
     (case s of
        d # f # fs \<Rightarrow>
          if d = 46 \<and> isdigit f then (d # f # takeWhile isdigit fs, dropWhile isdigit fs)
          else ([], s)
      | _ \<Rightarrow> ([], s))"

definition exp_part :: "str \<Rightarrow> str \<times> str" where
  "exp_part s =
     (case s of
        [] \<Rightarrow> ([], s)
      | e # es \<Rightarrow>
          if e = 101 \<or> e = 69 then
            (let sg = (if take 1 es = [45] \<or> take 1 es = [43] then take 1 es else []);
                 es1 = drop (length sg) es
             in if takeWhile isdigit es1 \<noteq> []
                then (e # sg @ takeWhile isdigit es1, dropWhile isdigit es1)
                else ([], s))
          else ([], s))"

definition match_number :: "(str \<Rightarrow> 64 word) \<Rightarrow> str \<Rightarrow> (pyval \<times> str) option" where
  "match_number parse_float s =
     (let neg = (take 1 s = [45]);
          s1 = (if neg then drop 1 s else s)
      in case int_part s1 of
           None \<Rightarrow> None
         | Some (ip, s2) \<Rightarrow>
             (let (frac, s3) = frac_part s2;
                  (ex, s4) = exp_part s3
              in if frac = [] \<and> ex = []
                 then Some (PInt (if neg then - int_of_digits ip else int_of_digits ip), s4)
                 else Some (PFloat (parse_float ((if neg then [45] else []) @ ip @ frac @ ex)),
                            s4)))"

lemma int_part_shorter: "int_part s = Some (ip, r) \<Longrightarrow> length r < length s"
  unfolding int_part_def
  by (auto split: list.splits if_splits simp: less_Suc_eq_le length_dropWhile_le)

lemma frac_part_le: "length (snd (frac_part s)) \<le> length s"
  unfolding frac_part_def
  by (auto split: list.splits intro: le_trans [OF length_dropWhile_le])

lemma exp_part_le: "length (snd (exp_part s)) \<le> length s"
  unfolding exp_part_def Let_def
  by (auto split: list.splits intro!: le_trans [OF length_dropWhile_le])

lemma match_number_shorter:
  assumes "match_number pf s = Some (v, r)"
  shows "length r < length s"
proof -
  let ?s1 = "if take 1 s = [45] then drop 1 s else s"
  from assms obtain ip s2 where ip: "int_part ?s1 = Some (ip, s2)"
    unfolding match_number_def Let_def by (auto split: option.splits)
  from assms ip have r: "r = snd (exp_part (snd (frac_part s2)))"
    unfolding match_number_def Let_def by (auto split: prod.splits if_splits)
  have "length r \<le> length s2"
    unfolding r by (rule le_trans [OF exp_part_le frac_part_le])
  also have "\<dots> < length ?s1" by (rule int_part_shorter [OF ip])
  also have "\<dots> \<le> length s" by simp
  finally show ?thesis .
qed


datatype token =
    TLBrace | TRBrace | TLBracket | TRBracket | TComma | TColon | TScalar pyval

function lex :: "(str \<Rightarrow> 64 word) \<Rightarrow> str \<Rightarrow> token list option" where
  "lex pf [] = Some []"
| "lex pf (c # cs) =
     (if c = 32 \<or> c = 9 \<or> c = 10 \<or> c = 13 then lex pf cs
      else if c = 123 then map_option ((#) TLBrace) (lex pf cs)
      else if c = 125 then map_option ((#) TRBrace) (lex pf cs)
      else if c = 91 then map_option ((#) TLBracket) (lex pf cs)
      else if c = 93 then map_option ((#) TRBracket) (lex pf cs)
      else if c = 44 then map_option ((#) TComma) (lex pf cs)
      else if c = 58 then map_option ((#) TColon) (lex pf cs)
      else if c = 34 then
        (case scanstring [] cs of
           None \<Rightarrow> None
         | Some (x, r) \<Rightarrow> map_option ((#) (TScalar (PStr x))) (lex pf r))
      else if startswith (c # cs) (lit ''null'')
        then map_option ((#) (TScalar PNone)) (lex pf (drop 3 cs))
      else if startswith (c # cs) (lit ''true'')
        then map_option ((#) (TScalar (PBool True))) (lex pf (drop 3 cs))
      else if startswith (c # cs) (lit ''false'')
        then map_option ((#) (TScalar (PBool False))) (lex pf (drop 4 cs))
      else if startswith (c # cs) (lit ''NaN'')
        then map_option ((#) (TScalar (PFloat 0x7FF8000000000000))) (lex pf (drop 2 cs))
      else if startswith (c # cs) (lit ''Infinity'')
        then map_option ((#) (TScalar (PFloat 0x7FF0000000000000))) (lex pf (drop 7 cs))
      else if startswith (c # cs) (lit ''-Infinity'')
        then map_option ((#) (TScalar (PFloat 0xFFF0000000000000))) (lex pf (drop 8 cs))
      else
        (case match_number pf (c # cs) of
           None \<Rightarrow> None
         | Some (v, r) \<Rightarrow> map_option ((#) (TScalar v)) (lex pf r)))"
  by pat_completeness auto
termination
  by (relation "measure (\<lambda>(pf, s). length s)")
     (auto dest: scanstring_shorter match_number_shorter)

text \<open>
  The automaton: a stack of the arrays and objects that are open, and what may come next.
\<close>

datatype frame = InArr "pyval list" | InObj "(str \<times> pyval) list" str

datatype pstate =
    ExpValue "frame list"
  | ArrStart "frame list"
  | ArrAfter "pyval list" "frame list"
  | ObjStart "frame list"
  | ObjKey "(str \<times> pyval) list" "frame list"
  | ObjColon "(str \<times> pyval) list" str "frame list"
  | ObjAfter "(str \<times> pyval) list" "frame list"
  | Done pyval

fun complete :: "pyval \<Rightarrow> frame list \<Rightarrow> pstate" where
  "complete v [] = Done v"
| "complete v (InArr items # st) = ArrAfter (items @ [v]) st"
| "complete v (InObj pairs k # st) = ObjAfter (AList.update k v pairs) st"

fun open_value :: "token \<Rightarrow> frame list \<Rightarrow> pstate option" where
  "open_value (TScalar v) st = Some (complete v st)"
| "open_value TLBracket st = Some (ArrStart st)"
| "open_value TLBrace st = Some (ObjStart st)"
| "open_value _ st = None"

fun pstep :: "pstate \<Rightarrow> token \<Rightarrow> pstate option" where
  "pstep (ExpValue st) t = open_value t st"
| "pstep (ArrStart st) t =
     (if t = TRBracket then Some (complete (PList []) st) else open_value t (InArr [] # st))"
| "pstep (ArrAfter items st) t =
     (if t = TRBracket then Some (complete (PList items) st)
      else if t = TComma then Some (ExpValue (InArr items # st))
      else None)"
| "pstep (ObjStart st) t =
     (case t of
        TRBrace \<Rightarrow> Some (complete (PDict []) st)
      | TScalar (PStr k) \<Rightarrow> Some (ObjColon [] k st)
      | _ \<Rightarrow> None)"
| "pstep (ObjKey pairs st) t =
     (case t of
        TScalar (PStr k) \<Rightarrow> Some (ObjColon pairs k st)
      | _ \<Rightarrow> None)"
| "pstep (ObjColon pairs k st) t =
     (if t = TColon then Some (ExpValue (InObj pairs k # st)) else None)"
| "pstep (ObjAfter pairs st) t =
     (if t = TRBrace then Some (complete (PDict pairs) st)
      else if t = TComma then Some (ObjKey pairs st)
      else None)"
| "pstep (Done v) t = None"

fun run_tokens :: "pstate \<Rightarrow> token list \<Rightarrow> pstate option" where
  "run_tokens q [] = Some q"
| "run_tokens q (t # ts) = (case pstep q t of None \<Rightarrow> None | Some q' \<Rightarrow> run_tokens q' ts)"

definition json_decode :: "(str \<Rightarrow> 64 word) \<Rightarrow> str \<Rightarrow> pyval outcome" where
  "json_decode parse_float s =
     (case lex parse_float s of
        None \<Rightarrow> Raises JSONDecodeError
      | Some ts \<Rightarrow>
          (case run_tokens (ExpValue []) ts of
             Some (Done v) \<Rightarrow> Returns v
           | _ \<Rightarrow> Raises JSONDecodeError))"

section \<open>Rendering the keyword result\<close>

text \<open>
  \<open>response.get(key, default)\<close>: only a \<open>dict\<close> has the method; on any other value the
  attribute lookup raises \<open>AttributeError\<close>.
\<close>

fun dict_get :: "pyval \<Rightarrow> str \<Rightarrow> pyval \<Rightarrow> pyval outcome" where
  "dict_get (PDict kvs) k d = Returns (case map_of kvs k of None \<Rightarrow> d | Some v \<Rightarrow> v)"
| "dict_get _ k d = Raises AttributeError"

text \<open>
  \<open>sep.join(v)\<close> for an arbitrary value: a list is joined when all its items are strings, a
  string is iterated by character, a dict by key; joining anything else, or a list with an
  item that is no string, raises \<open>TypeError\<close>.
\<close>

fun strs_of :: "pyval list \<Rightarrow> str list option" where
  "strs_of [] = Some []"
| "strs_of (PStr s # xs) = map_option ((#) s) (strs_of xs)"
| "strs_of (_ # xs) = None"

fun py_join :: "str \<Rightarrow> pyval \<Rightarrow> str outcome" where
  "py_join sep (PList xs) =
     (case strs_of xs of None \<Rightarrow> Raises TypeError | Some ss \<Rightarrow> Returns (join_strs sep ss))"
| "py_join sep (PStr s) = Returns (join_strs sep (map (\<lambda>c. [c]) s))"
| "py_join sep (PDict kvs) = Returns (join_strs sep (map fst kvs))"
| "py_join sep _ = Raises TypeError"

text \<open>
  One of the three lines of the \<open>submit2\<close> branch: the f-string
  \<open>**label:** {', '.join(response.get(label, []))}\<close>.
\<close>

definition category_line :: "str \<Rightarrow> pyval \<Rightarrow> str outcome" where
  "category_line label response =
     (case dict_get response label (PList []) of
        Raises e \<Rightarrow> Raises e
      | Returns v \<Rightarrow>
          (case py_join (lit '', '') v of
             Raises e \<Rightarrow> Raises e
           | Returns s \<Rightarrow> Returns (lit ''**'' @ label @ lit '':** '' @ s)))"

text \<open>
  The \<open>st.write\<close> calls run one after the other, so a line that raises leaves the lines
  before it on the page.
\<close>

fun write_lines :: "str list \<Rightarrow> pyval \<Rightarrow> unit outcome \<times> event list" where
  "write_lines [] response = (Returns (), [])"
| "write_lines (label # labels) response =
     (case category_line label response of
        Raises e \<Rightarrow> (Raises e, [])
      | Returns s \<Rightarrow>
          (case write_lines labels response of (r, evs) \<Rightarrow> (r, Write s # evs)))"

definition categories :: "str list" where
  "categories = [lit ''Technical Skills'', lit ''Analytical Skills'', lit ''Soft Skills'']"

definition extraction_failure :: str where
  "extraction_failure = lit ''Could not extract skills. Please try again.''"

text \<open>The \<open>if response: ... else: ...\<close> of the \<open>submit2\<close> branch.\<close>

definition render_keywords :: "pyval \<Rightarrow> unit outcome \<times> event list" where
  "render_keywords response =
     (if truthy response
      then (case write_lines categories response of
              (r, evs) \<Rightarrow> (r, Subheader (lit ''Extracted Skills'') # evs))
      else (Returns (), [Error extraction_failure]))"

text \<open>
  How Streamlit shows a written Markdown string as text: the bold markers \<open>**\<close> are not
  part of what is displayed.
\<close>

fun displayed :: "str \<Rightarrow> str" where
  "displayed (a # b # cs) = (if a = 42 \<and> b = 42 then displayed cs else a # displayed (b # cs))"
| "displayed cs = cs"

section \<open>The document converter\<close>

text \<open>\<open>base64.b64encode(...).decode()\<close>: the standard alphabet, padded with \<open>=\<close>.\<close>

definition b64_alphabet :: str where
  "b64_alphabet = lit ''ABCDEFGHIJKLMNOPQRSTUVWXYZabcdefghijklmnopqrstuvwxyz0123456789+/''"

definition b64_char :: "nat \<Rightarrow> nat" where
  "b64_char i = b64_alphabet ! (i mod 64)"

fun b64encode :: "bytes \<Rightarrow> str" where
  "b64encode [] = []"
| "b64encode [a] =
     (let n = unat a * 65536
      in [b64_char (n div 262144), b64_char (n div 4096), 61, 61])"
| "b64encode [a, b] =
     (let n = unat a * 65536 + unat b * 256
      in [b64_char (n div 262144), b64_char (n div 4096), b64_char (n div 64), 61])"
| "b64encode (a # b # c # rest) =
     (let n = unat a * 65536 + unat b * 256 + unat c
      in [b64_char (n div 262144), b64_char (n div 4096), b64_char (n div 64), b64_char n]
         @ b64encode rest)"

text \<open>
  An uploaded file: the identity of the file object and the bytes \<open>read()\<close> returns (the
  whole file; the object is read from its start).
\<close>

record uploaded_file =
  ident :: nat
  file_data :: bytes

text \<open>
  \<open>input_pdf_setup\<close>, the undecorated function. \<open>convert_from_bytes\<close> stands for
  \<open>pdf2image.convert_from_bytes\<close> (the pages as images, or the exception it raises) and
  \<open>save_jpeg\<close> for \<open>first_page.save(img_byte_arr, format="JPEG")\<close> followed by
  \<open>getvalue()\<close>. \<open>images[0]\<close> raises \<open>IndexError\<close> on an empty list.
\<close>

definition input_pdf_setup ::
  "(bytes \<Rightarrow> 'img list outcome) \<Rightarrow> ('img \<Rightarrow> bytes outcome) \<Rightarrow> uploaded_file option
     \<Rightarrow> part list outcome \<times> event list" where
  "input_pdf_setup convert_from_bytes save_jpeg uploaded_file =
     (case uploaded_file of
        None \<Rightarrow> (Raises (FileNotFoundError (lit ''No file uploaded'')), [])
      | Some f \<Rightarrow>
          (case convert_from_bytes (file_data f) of
             Raises e \<Rightarrow> (Raises e, [ConvertFromBytes (file_data f)])
           | Returns images \<Rightarrow>
               (case images of
                  [] \<Rightarrow> (Raises IndexError, [ConvertFromBytes (file_data f)])
                | first_page # _ \<Rightarrow>
                    (case save_jpeg first_page of
                       Raises e \<Rightarrow> (Raises e, [ConvertFromBytes (file_data f)])
                     | Returns img_byte_arr \<Rightarrow>
                         (Returns [[(lit ''mime_type'', lit ''image/jpeg''),
                                    (lit ''data'', b64encode img_byte_arr)]],
                          [ConvertFromBytes (file_data f)])))))"

text \<open>
  Modelled from the spec: the decorator \<open>@st.cache_data(show_spinner=False)\<close> is
  Streamlit's and its code is not part of the sources. The spec says of the converter:
  "Result is cached keyed by the identity of the uploaded file object so repeated button
  presses on the same upload skip re-rasterization." So the cache maps the identity of the
  argument (\<open>None\<close> for no file) to the value returned for it; a call whose key is in the
  cache returns the stored value and does not run the function; a call that raises stores
  nothing.
\<close>

type_synonym cache = "nat option \<Rightarrow> part list option"

definition cached_input_pdf_setup ::
  "(bytes \<Rightarrow> 'img list outcome) \<Rightarrow> ('img \<Rightarrow> bytes outcome) \<Rightarrow> cache \<Rightarrow> uploaded_file option
     \<Rightarrow> (part list outcome \<times> event list) \<times> cache" where
  "cached_input_pdf_setup convert_from_bytes save_jpeg c uploaded_file =
     (case c (map_option ident uploaded_file) of
        Some v \<Rightarrow> ((Returns v, []), c)
      | None \<Rightarrow>
          (case input_pdf_setup convert_from_bytes save_jpeg uploaded_file of
             (Returns v, evs) \<Rightarrow> ((Returns v, evs), c(map_option ident uploaded_file \<mapsto> v))
           | (Raises e, evs) \<Rightarrow> ((Raises e, evs), c)))"

section \<open>The page script\<close>

definition input_prompt1 :: str where
  "input_prompt1 =
     [10] @ lit ''You are an experienced Technical Human Resource Manager.'' @ [10] @
     lit ''Review the resume against the job description and provide strengths and weaknesses.''
     @ [10]"

definition input_prompt2 :: str where
  \<open>input_prompt2 =
     [10] @ lit ''As an expert ATS scanner, identify skills required from the job description.''
     @ [10] @ lit ''Return JSON only in this format:'' @ [10] @
     lit ''{ "Technical Skills": [], "Analytical Skills": [], "Soft Skills": [] }'' @ [10]\<close>

definition input_prompt3 :: str where
  "input_prompt3 =
     [10] @ lit ''Evaluate the resume against the job description.'' @ [10] @
     lit ''Return:'' @ [10] @ lit ''1) Percentage match'' @ [10] @
     lit ''2) Missing keywords'' @ [10] @ lit ''3) Final thoughts'' @ [10]"

definition job_description_warning :: str where
  "job_description_warning = lit ''Please enter a job description.''"

definition upload_warning :: str where
  "upload_warning = lit ''Please upload a resume.''"

text \<open>
  \<open>validate_inputs\<close> reads the job description and the session's \<open>resume\<close> slot; they
  are its arguments here.
\<close>

definition validate_inputs :: "str \<Rightarrow> uploaded_file option \<Rightarrow> bool \<times> event list" where
  "validate_inputs input_text resume =
     (if strip input_text = [] then (False, [Warning job_description_warning])
      else if resume = None then (False, [Warning upload_warning])
      else (True, []))"

text \<open>
  The libraries a run calls, the widget values of a run, and what outlives a run: the
  session's \<open>resume\<close> slot (absent before the first run of a session) and the converter's
  cache.
\<close>

record 'img libs =
  model_generate_content :: "request \<Rightarrow> str outcome"
  json_loads :: "str \<Rightarrow> pyval outcome"
  pdf2image_convert_from_bytes :: "bytes \<Rightarrow> 'img list outcome"
  image_save_jpeg :: "'img \<Rightarrow> bytes outcome"

record inputs =
  input_text :: str
  uploaded_file :: "uploaded_file option"
  submit1 :: bool
  submit2 :: bool
  submit3 :: bool

record state =
  resume :: "uploaded_file option option"
  pdf_cache :: cache

text \<open>
  The branches for \<open>submit1\<close> and \<open>submit3\<close>: spinner, converter, model call, subheader,
  the response written as it is. An exception ends the run where it is raised.
\<close>

definition narrative_action ::
  "'img libs \<Rightarrow> str \<Rightarrow> str \<Rightarrow> str \<Rightarrow> str \<Rightarrow> uploaded_file option \<Rightarrow> cache
     \<Rightarrow> (unit outcome \<times> event list) \<times> cache" where
  "narrative_action L spinner_text prompt heading job slot c =
     (case cached_input_pdf_setup (pdf2image_convert_from_bytes L) (image_save_jpeg L) c slot of
        ((Raises e, ev1), c') \<Rightarrow> ((Raises e, Spinner spinner_text # ev1), c')
      | ((Returns pdf_content, ev1), c') \<Rightarrow>
          (case get_gemini_response (model_generate_content L) prompt pdf_content job of
             (Raises e, ev2) \<Rightarrow> ((Raises e, Spinner spinner_text # ev1 @ ev2), c')
           | (Returns response, ev2) \<Rightarrow>
               ((Returns (),
                 Spinner spinner_text # ev1 @ ev2 @ [Subheader heading, Write response]), c')))"

text \<open>The branch for \<open>submit2\<close>.\<close>

definition keywords_action ::
  "'img libs \<Rightarrow> str \<Rightarrow> uploaded_file option \<Rightarrow> cache \<Rightarrow> (unit outcome \<times> event list) \<times> cache" where
  "keywords_action L job slot c =
     (case cached_input_pdf_setup (pdf2image_convert_from_bytes L) (image_save_jpeg L) c slot of
        ((Raises e, ev1), c') \<Rightarrow>
          ((Raises e, Spinner (lit ''Extracting keywords...'') # ev1), c')
      | ((Returns pdf_content, ev1), c') \<Rightarrow>
          (case get_gemini_response_keywords (model_generate_content L) (json_loads L)
                  input_prompt2 pdf_content job of
             (Raises e, ev2) \<Rightarrow>
               ((Raises e, Spinner (lit ''Extracting keywords...'') # ev1 @ ev2), c')
           | (Returns response, ev2) \<Rightarrow>
               (case render_keywords response of
                  (r, ev3) \<Rightarrow>
                    ((r, Spinner (lit ''Extracting keywords...'') # ev1 @ ev2 @ ev3), c'))))"

text \<open>
  \<open>submitN and validate_inputs()\<close>: the validation runs, and warns, only when the button
  was pressed.
\<close>

definition pressed_and_valid :: "bool \<Rightarrow> str \<Rightarrow> uploaded_file option \<Rightarrow> bool \<times> event list" where
  "pressed_and_valid submit job slot = (if submit then validate_inputs job slot else (False, []))"

text \<open>
  The top of the script: the page header, and the upload bookkeeping. After it the
  session's \<open>resume\<close> slot holds the file of this run's uploader if there is one, else
  what it held before (\<open>None\<close> when the session is new).
\<close>

definition page_head :: "inputs \<Rightarrow> event list" where
  "page_head inp =
     [SetPageConfig (lit ''ATS Resume Scanner''), Header (lit ''Application Tracking System'')]
     @ (case uploaded_file inp of
          None \<Rightarrow> []
        | Some f \<Rightarrow> [Success (lit ''PDF uploaded successfully'')])"

definition current_resume :: "inputs \<Rightarrow> state \<Rightarrow> uploaded_file option" where
  "current_resume inp st =
     (case uploaded_file inp of
        None \<Rightarrow> (case resume st of None \<Rightarrow> None | Some r \<Rightarrow> r)
      | Some f \<Rightarrow> Some f)"

text \<open>
  One run of the script, from the page header to the end of the \<open>if/elif\<close> chain: the
  outcome of the run, what it did, and the state it leaves.
\<close>

definition script ::
  "'img libs \<Rightarrow> inputs \<Rightarrow> state \<Rightarrow> (unit outcome \<times> event list) \<times> state" where
  "script L inp st =
     (let slot = current_resume inp st;
          pre = page_head inp;
          job = input_text inp;
          c = pdf_cache st;
          (ok1, w1) = pressed_and_valid (submit1 inp) job slot
      in if ok1 then
           (case narrative_action L (lit ''Analyzing resume...'') input_prompt1
                   (lit ''Resume Evaluation'') job slot c of
              ((r, evs), c') \<Rightarrow> ((r, pre @ w1 @ evs), \<lparr>resume = Some slot, pdf_cache = c'\<rparr>))
         else
           (let (ok2, w2) = pressed_and_valid (submit2 inp) job slot
            in if ok2 then
                 (case keywords_action L job slot c of
                    ((r, evs), c') \<Rightarrow>
                      ((r, pre @ w1 @ w2 @ evs), \<lparr>resume = Some slot, pdf_cache = c'\<rparr>))
               else
                 (let (ok3, w3) = pressed_and_valid (submit3 inp) job slot
                  in if ok3 then
                       (case narrative_action L (lit ''Calculating match percentage...'')
                               input_prompt3 (lit ''ATS Match Result'') job slot c of
                          ((r, evs), c') \<Rightarrow>
                            ((r, pre @ w1 @ w2 @ w3 @ evs),
                             \<lparr>resume = Some slot, pdf_cache = c'\<rparr>))
                     else ((Returns (), pre @ w1 @ w2 @ w3),
                           \<lparr>resume = Some slot, pdf_cache = c\<rparr>))))"

text \<open>
  A session: the script runs once for each interaction, each run starting from the state
  the one before left, whether that one ended normally or with an exception.
\<close>

fun session :: "'img libs \<Rightarrow> inputs list \<Rightarrow> state \<Rightarrow> event list \<times> state" where
  "session L [] st = ([], st)"
| "session L (inp # inps) st =
     (case script L inp st of
        ((r, evs), st') \<Rightarrow> (case session L inps st' of (evs', st'') \<Rightarrow> (evs @ evs', st'')))"

text \<open>The events of a run that are calls to the provider, and to the rasteriser.\<close>

fun is_model_call :: "event \<Rightarrow> bool" where
  "is_model_call (GenerateContent r) = True"
| "is_model_call _ = False"

fun is_conversion :: "event \<Rightarrow> bool" where
  "is_conversion (ConvertFromBytes b) = True"
| "is_conversion _ = False"

text \<open>
  What a press sends to the model. A run reaches the branch of a button when the button is
  pressed and the validation passes; with a file in the session's slot that is: the job
  text is not blank. The branch taken is that of the first pressed button in the order of
  the \<open>if/elif\<close> chain, \<open>pressed_prompt\<close> is the prompt of that branch, and
  \<open>press_request p inp\<close> is the request of its one model call when \<open>pdf_content[0]\<close> is
  the page image \<open>p\<close>: the list \<open>[prompt, pdf_content[0], input_text]\<close>.
\<close>

definition valid_press :: "inputs \<Rightarrow> bool" where
  "valid_press inp \<longleftrightarrow>
     (submit1 inp \<or> submit2 inp \<or> submit3 inp) \<and> strip (input_text inp) \<noteq> []"

definition pressed_prompt :: "inputs \<Rightarrow> str" where
  "pressed_prompt inp =
     (if submit1 inp then input_prompt1 else if submit2 inp then input_prompt2 else input_prompt3)"

definition press_request :: "part \<Rightarrow> inputs \<Rightarrow> request" where
  "press_request p inp =
     \<lparr>contents = [Text (pressed_prompt inp), Blob p, Text (input_text inp)],
      generation_config = temperature_config\<rparr>"

text \<open>
  The exception classes of the provider call: the quota error and every other class of
  the provider.
\<close>

fun provider_error :: "exn \<Rightarrow> bool" where
  "provider_error ResourceExhausted = True"
| "provider_error (ProviderError c) = True"
| "provider_error _ = False"

text \<open>
  Library behaviours used to run the code on concrete inputs: a rasteriser that turns any
  PDF into one page (the page is the PDF's bytes), one that fails as pdf2image does on
  bytes that are no PDF, a JPEG encoder (the identity on the bytes), and a float parser for
  JSON texts without a fraction or exponent, which never call it.
\<close>

definition one_page_converter :: "bytes \<Rightarrow> bytes list outcome" where
  "one_page_converter b = Returns [b]"

definition failing_converter :: "bytes \<Rightarrow> bytes list outcome" where
  "failing_converter b = Raises (ConversionError ''PDFPageCountError'')"

definition plain_encoder :: "bytes \<Rightarrow> bytes outcome" where
  "plain_encoder img = Returns img"

definition unused_parse_float :: "str \<Rightarrow> 64 word" where
  "unused_parse_float s = 0"

text \<open>
  The libraries of a run in which the provider answers every request the same way.
\<close>

definition example_libs :: "str outcome \<Rightarrow> bytes libs" where
  "example_libs answer =
     \<lparr>model_generate_content = (\<lambda>r. answer),
      json_loads = json_decode unused_parse_float,
      pdf2image_convert_from_bytes = one_page_converter,
      image_save_jpeg = plain_encoder\<rparr>"

text \<open>
  The response body of the keyword example: the JSON object of the three categories inside
  a fenced code block, with a line feed after the opening fence and before the closing one.
\<close>

definition fenced_response :: str where
  \<open>fenced_response =
     lit ''```json'' @ [10] @
     lit ''{"Technical Skills":["A"],"Analytical Skills":[],"Soft Skills":["B"]}'' @ [10] @
     lit ''```''\<close>

section \<open>Properties\<close>

lemma py_slice_7_m3: "py_slice t 7 (-3) = drop 7 (take (length t - 3) t)"
  by (auto simp add: py_slice_def slice_bound_def nat_diff_distrib' max_def min_def)

subsection \<open>The narrative path on a quota error\<close>

text \<open>
  C2. For every prompt, encoded image and job text: when the provider call of
  \<open>get_gemini_response\<close> raises \<open>ResourceExhausted\<close>, the function returns (it does not
  raise) exactly the warning literal, and what it did is one provider call followed by
  one sleep of 10 seconds: no second call.
\<close>

theorem get_gemini_response_quota:
  "generate_content \<lparr>contents = [Text prompt, Blob p, Text job_description],
                     generation_config = temperature_config\<rparr> = Raises ResourceExhausted
   \<Longrightarrow> get_gemini_response generate_content prompt (p # ps) job_description =
         (Returns ([0x26A0, 0xFE0F] @
                   lit '' Gemini API quota exceeded. Please wait a few seconds and try again.''),
          [GenerateContent \<lparr>contents = [Text prompt, Blob p, Text job_description],
                            generation_config = temperature_config\<rparr>,
           Sleep 10])"
  by (simp add: get_gemini_response_def quota_message_def)

theorem get_gemini_response_quota_witness:
  "get_gemini_response (\<lambda>r. Raises ResourceExhausted) input_prompt1
       [[(lit ''mime_type'', lit ''image/jpeg''), (lit ''data'', lit ''TWFu'')]] (lit ''Python developer'') =
     (Returns ([0x26A0, 0xFE0F] @
               lit '' Gemini API quota exceeded. Please wait a few seconds and try again.''),
      [GenerateContent
         \<lparr>contents = [Text input_prompt1,
                      Blob [(lit ''mime_type'', lit ''image/jpeg''), (lit ''data'', lit ''TWFu'')],
                      Text (lit ''Python developer'')],
          generation_config = temperature_config\<rparr>,
       Sleep 10])"
  by (rule get_gemini_response_quota) simp

subsection \<open>Other provider errors\<close>

text \<open>
  C9. For every provider error other than quota exhaustion, neither
  \<open>get_gemini_response\<close> nor \<open>get_gemini_response_keywords\<close> catches it: each function
  ends by raising that same error, after its one provider call. The button branches that
  call them have no handler either, so the branch, and with it the run, ends with that
  error.
\<close>

theorem provider_errors_propagate:
  assumes "provider_error e" and "e \<noteq> ResourceExhausted"
    and "generate_content \<lparr>contents = [Text prompt, Blob p, Text job_description],
                            generation_config = temperature_config\<rparr> = Raises e"
  shows "get_gemini_response generate_content prompt (p # ps) job_description =
           (Raises e, [GenerateContent \<lparr>contents = [Text prompt, Blob p, Text job_description],
                                        generation_config = temperature_config\<rparr>])
       \<and> get_gemini_response_keywords generate_content loads prompt (p # ps)
           job_description =
           (Raises e, [GenerateContent \<lparr>contents = [Text prompt, Blob p, Text job_description],
                                        generation_config = temperature_config\<rparr>])
       \<and> (\<forall>L spinner_text heading slot c evs c'.
             model_generate_content L = generate_content
             \<longrightarrow> cached_input_pdf_setup (pdf2image_convert_from_bytes L) (image_save_jpeg L) c slot =
                   ((Returns (p # ps), evs), c')
             \<longrightarrow> fst (fst (narrative_action L spinner_text prompt heading job_description slot c)) =
                   Raises e)
       \<and> (\<forall>L slot c evs c'.
             model_generate_content L = generate_content \<longrightarrow> prompt = input_prompt2
             \<longrightarrow> cached_input_pdf_setup (pdf2image_convert_from_bytes L) (image_save_jpeg L) c slot =
                   ((Returns (p # ps), evs), c')
             \<longrightarrow> fst (fst (keywords_action L job_description slot c)) = Raises e)"
proof -
  let ?req = "\<lparr>contents = [Text prompt, Blob p, Text job_description],
                generation_config = temperature_config\<rparr>"
  from assms(1,2) have caught: "\<not> (e = ResourceExhausted \<or> e = JSONDecodeError)"
    by (cases e) simp_all
  have a: "get_gemini_response generate_content prompt (p # ps) job_description =
             (Raises e, [GenerateContent ?req])"
    using assms(2,3) by (simp add: get_gemini_response_def)
  have b: "get_gemini_response_keywords generate_content loads prompt (p # ps) job_description =
             (Raises e, [GenerateContent ?req])" for loads
    using caught assms(3) by (simp add: get_gemini_response_keywords_def)
  have c: "fst (fst (narrative_action L spinner_text prompt heading job_description slot c)) =
             Raises e"
    if "model_generate_content L = generate_content"
      and "cached_input_pdf_setup (pdf2image_convert_from_bytes L) (image_save_jpeg L) c slot =
             ((Returns (p # ps), evs), c')"
    for L :: "'a libs" and spinner_text heading slot c evs c'
    using that a by (simp add: narrative_action_def)
  have d: "fst (fst (keywords_action L job_description slot c)) = Raises e"
    if "model_generate_content L = generate_content" and "prompt = input_prompt2"
      and "cached_input_pdf_setup (pdf2image_convert_from_bytes L) (image_save_jpeg L) c slot =
             ((Returns (p # ps), evs), c')"
    for L :: "'b libs" and slot c evs c'
    using that b [of "json_loads L"] by (simp add: keywords_action_def)
  from a b c d show ?thesis by blast
qed

theorem provider_errors_propagate_witness:
  "script (example_libs (Raises (ProviderError ''ServiceUnavailable'')))
     \<lparr>input_text = lit ''Data engineer'',
      uploaded_file = Some \<lparr>ident = 1, file_data = [0x25, 0x50, 0x44, 0x46]\<rparr>,
      submit1 = False, submit2 = False, submit3 = True\<rparr>
     \<lparr>resume = None, pdf_cache = Map.empty\<rparr> =
   ((Raises (ProviderError ''ServiceUnavailable''),
     [SetPageConfig (lit ''ATS Resume Scanner''), Header (lit ''Application Tracking System''),
      Success (lit ''PDF uploaded successfully''),
      Spinner (lit ''Calculating match percentage...''),
      ConvertFromBytes [0x25, 0x50, 0x44, 0x46],
      GenerateContent
        \<lparr>contents = [Text input_prompt3,
                     Blob [(lit ''mime_type'', lit ''image/jpeg''), (lit ''data'', lit ''JVBERg=='')],
                     Text (lit ''Data engineer'')],
         generation_config = temperature_config\<rparr>]),
    \<lparr>resume = Some (Some \<lparr>ident = 1, file_data = [0x25, 0x50, 0x44, 0x46]\<rparr>),
     pdf_cache = Map.empty(Some 1 \<mapsto>
       [[(lit ''mime_type'', lit ''image/jpeg''), (lit ''data'', lit ''JVBERg=='')]])\<rparr>)"
proof -
  let ?e = "ProviderError ''ServiceUnavailable''"
  let ?part = "[(lit ''mime_type'', lit ''image/jpeg''), (lit ''data'', lit ''JVBERg=='')]"
  let ?req = "\<lparr>contents = [Text input_prompt3, Blob ?part, Text (lit ''Data engineer'')],
                generation_config = temperature_config\<rparr>"
  have p1: "provider_error ?e" and p2: "?e \<noteq> ResourceExhausted"
    by simp_all
  note call = provider_errors_propagate
    [where generate_content = "\<lambda>r. Raises ?e" and prompt = input_prompt3 and p = ?part
       and job_description = "lit ''Data engineer''" and ps = "[]"
       and loads = "json_decode unused_parse_float", OF p1 p2 refl, THEN conjunct1]
  show ?thesis
    using call
    by (simp add: script_def pressed_and_valid_def validate_inputs_def strip_def isspace_def
        current_resume_def page_head_def narrative_action_def cached_input_pdf_setup_def
        input_pdf_setup_def example_libs_def one_page_converter_def plain_encoder_def
        b64_char_def b64_alphabet_def)
qed

subsection \<open>What the events of each part can be\<close>

lemma page_head_quiet:
  "filter is_model_call (page_head inp) = []" "filter is_conversion (page_head inp) = []"
  by (simp_all add: page_head_def split: option.splits)

lemma validate_inputs_quiet:
  "filter is_model_call (snd (validate_inputs job slot)) = []"
  "filter is_conversion (snd (validate_inputs job slot)) = []"
  by (simp_all add: validate_inputs_def)

lemma get_gemini_response_no_conversion:
  "filter is_conversion (snd (get_gemini_response g prompt pc job)) = []"
  by (simp add: get_gemini_response_def Let_def split: list.splits outcome.splits)

lemma get_gemini_response_keywords_no_conversion:
  "filter is_conversion (snd (get_gemini_response_keywords g l prompt pc job)) = []"
  by (simp add: get_gemini_response_keywords_def Let_def split: list.splits)

lemma write_lines_no_conversion:
  "filter is_conversion (snd (write_lines labels v)) = []"
  by (induction labels) (auto split: outcome.splits prod.splits)

lemma render_keywords_no_conversion:
  "filter is_conversion (snd (render_keywords v)) = []"
  using write_lines_no_conversion [of categories v]
  by (auto simp: render_keywords_def split: prod.splits)

subsection \<open>The run when the validation rejects\<close>

lemma script_rejected:
  assumes "validate_inputs (input_text inp) (current_resume inp st) = (False, w)"
  shows "script L inp st =
           ((Returns (),
             page_head inp @ (if submit1 inp then w else []) @ (if submit2 inp then w else [])
               @ (if submit3 inp then w else [])),
            \<lparr>resume = Some (current_resume inp st), pdf_cache = pdf_cache st\<rparr>)"
  using assms by (simp add: script_def pressed_and_valid_def Let_def)

text \<open>
  C4. For every session whose job-description text is empty or whitespace only, a run in
  which any of the three buttons is pressed ends normally, makes no call to the model,
  converts no PDF (and leaves the converter's cache as it was), and shows the
  job-description warning: what the run does is the page head followed by that warning,
  once per pressed button.
\<close>

theorem empty_job_description_no_call:
  "strip (input_text inp) = [] \<Longrightarrow> submit1 inp \<or> submit2 inp \<or> submit3 inp
   \<Longrightarrow> script L inp st =
         ((Returns (),
           page_head inp
           @ (if submit1 inp then [Warning (lit ''Please enter a job description.'')] else [])
           @ (if submit2 inp then [Warning (lit ''Please enter a job description.'')] else [])
           @ (if submit3 inp then [Warning (lit ''Please enter a job description.'')] else [])),
          \<lparr>resume = Some (current_resume inp st), pdf_cache = pdf_cache st\<rparr>)
       \<and> filter is_model_call (snd (fst (script L inp st))) = []
       \<and> filter is_conversion (snd (fst (script L inp st))) = []
       \<and> Warning (lit ''Please enter a job description.'') \<in> set (snd (fst (script L inp st)))"
proof -
  assume empty: "strip (input_text inp) = []"
  assume pressed: "submit1 inp \<or> submit2 inp \<or> submit3 inp"
  have v: "validate_inputs (input_text inp) (current_resume inp st) =
             (False, [Warning (lit ''Please enter a job description.'')])"
    using empty by (simp add: validate_inputs_def job_description_warning_def)
  note run = script_rejected [OF v, of L]
  show ?thesis
    unfolding run using pressed by (simp add: page_head_quiet)
qed

text \<open>
  C5. For every session with non-empty job text and no file in the session's resume slot
  (none uploaded in this run, none kept from an earlier one), a run in which any of the
  three buttons is pressed ends normally, makes no call to the model, converts no PDF, and
  shows the upload warning.
\<close>

theorem no_upload_no_call:
  "strip (input_text inp) \<noteq> [] \<Longrightarrow> current_resume inp st = None
   \<Longrightarrow> submit1 inp \<or> submit2 inp \<or> submit3 inp
   \<Longrightarrow> script L inp st =
         ((Returns (),
           page_head inp
           @ (if submit1 inp then [Warning (lit ''Please upload a resume.'')] else [])
           @ (if submit2 inp then [Warning (lit ''Please upload a resume.'')] else [])
           @ (if submit3 inp then [Warning (lit ''Please upload a resume.'')] else [])),
          \<lparr>resume = Some None, pdf_cache = pdf_cache st\<rparr>)
       \<and> filter is_model_call (snd (fst (script L inp st))) = []
       \<and> filter is_conversion (snd (fst (script L inp st))) = []
       \<and> Warning (lit ''Please upload a resume.'') \<in> set (snd (fst (script L inp st)))"
proof -
  assume nonempty: "strip (input_text inp) \<noteq> []"
  assume slot: "current_resume inp st = None"
  assume pressed: "submit1 inp \<or> submit2 inp \<or> submit3 inp"
  have v: "validate_inputs (input_text inp) (current_resume inp st) =
             (False, [Warning (lit ''Please upload a resume.'')])"
    using nonempty slot by (simp add: validate_inputs_def upload_warning_def)
  note run = script_rejected [OF v, of L]
  show ?thesis
    unfolding run using pressed slot by (simp add: page_head_quiet)
qed

theorem empty_job_description_no_call_witness:
  "strip (lit ''   '') = []
   \<and> script (example_libs (Returns []))
        \<lparr>input_text = lit ''   '',
         uploaded_file = Some \<lparr>ident = 1, file_data = [0x25, 0x50, 0x44, 0x46]\<rparr>,
         submit1 = False, submit2 = True, submit3 = False\<rparr>
        \<lparr>resume = None, pdf_cache = Map.empty\<rparr> =
       ((Returns (),
         [SetPageConfig (lit ''ATS Resume Scanner''), Header (lit ''Application Tracking System''),
          Success (lit ''PDF uploaded successfully''),
          Warning (lit ''Please enter a job description.'')]),
        \<lparr>resume = Some (Some \<lparr>ident = 1, file_data = [0x25, 0x50, 0x44, 0x46]\<rparr>),
         pdf_cache = Map.empty\<rparr>)"
  using empty_job_description_no_call
          [of "\<lparr>input_text = lit ''   '',
                uploaded_file = Some \<lparr>ident = 1, file_data = [0x25, 0x50, 0x44, 0x46]\<rparr>,
                submit1 = False, submit2 = True, submit3 = False\<rparr>"
              "example_libs (Returns [])" "\<lparr>resume = None, pdf_cache = Map.empty\<rparr>"]
  by (simp add: strip_def isspace_def page_head_def current_resume_def)

theorem no_upload_no_call_witness:
  "strip (lit '' Data engineer '') = lit ''Data engineer''
   \<and> script (example_libs (Returns []))
        \<lparr>input_text = lit '' Data engineer '', uploaded_file = None,
         submit1 = False, submit2 = False, submit3 = True\<rparr>
        \<lparr>resume = None, pdf_cache = Map.empty\<rparr> =
       ((Returns (),
         [SetPageConfig (lit ''ATS Resume Scanner''), Header (lit ''Application Tracking System''),
          Warning (lit ''Please upload a resume.'')]),
        \<lparr>resume = Some None, pdf_cache = Map.empty\<rparr>)"
  using no_upload_no_call
          [of "\<lparr>input_text = lit '' Data engineer '', uploaded_file = None,
                submit1 = False, submit2 = False, submit3 = True\<rparr>"
              "\<lparr>resume = None, pdf_cache = Map.empty\<rparr>" "example_libs (Returns [])"]
  by (simp add: strip_def isspace_def page_head_def current_resume_def)

subsection \<open>The document converter\<close>

lemma b64encode_examples:
  "b64encode [0x4D, 0x61, 0x6E] = lit ''TWFu''"
  "b64encode [0x4D, 0x61] = lit ''TWE=''"
  "b64encode [0x4D] = lit ''TQ==''"
  "b64encode [0x25, 0x50, 0x44, 0x46] = lit ''JVBERg==''"
  by (simp_all add: b64_char_def b64_alphabet_def)

text \<open>
  C6, as the claim states it, fails: with a file the rasteriser rejects (bytes that are no
  PDF), \<open>input_pdf_setup\<close> neither raises the file-not-found error nor returns a list; the
  rasteriser's exception leaves the function.
\<close>

theorem input_pdf_setup_counterexample:
  "input_pdf_setup failing_converter plain_encoder
       (Some \<lparr>ident = 1, file_data = [0x6E, 0x6F, 0x20, 0x70, 0x64, 0x66]\<rparr>) =
     (Raises (ConversionError ''PDFPageCountError''),
      [ConvertFromBytes [0x6E, 0x6F, 0x20, 0x70, 0x64, 0x66]])"
  by (simp add: input_pdf_setup_def failing_converter_def)

text \<open>
  C6, amended. With no file \<open>input_pdf_setup\<close> raises \<open>FileNotFoundError\<close>. With a file
  whose rasterisation returns at least one page and whose first page is encoded as JPEG
  without error, it returns a list of exactly one element, the dict with \<open>mime_type\<close>
  \<open>image/jpeg\<close> and \<open>data\<close> the base64 text of the JPEG of the first page; no other page
  is looked at. An exception of the rasteriser is not caught.
\<close>

theorem input_pdf_setup_contract:
  "input_pdf_setup convert_from_bytes save_jpeg None =
     (Raises (FileNotFoundError (lit ''No file uploaded'')), [])
   \<and> (convert_from_bytes (file_data f) = Returns (first_page # pages)
        \<longrightarrow> save_jpeg first_page = Returns jpeg
        \<longrightarrow> input_pdf_setup convert_from_bytes save_jpeg (Some f) =
              (Returns [[(lit ''mime_type'', lit ''image/jpeg''), (lit ''data'', b64encode jpeg)]],
               [ConvertFromBytes (file_data f)]))
   \<and> (convert_from_bytes (file_data f) = Raises e
        \<longrightarrow> input_pdf_setup convert_from_bytes save_jpeg (Some f) =
              (Raises e, [ConvertFromBytes (file_data f)]))"
  by (simp add: input_pdf_setup_def)

theorem input_pdf_setup_contract_witness:
  "one_page_converter [0x25, 0x50, 0x44, 0x46] = Returns [[0x25, 0x50, 0x44, 0x46]]
   \<and> plain_encoder [0x25, 0x50, 0x44, 0x46] = Returns [0x25, 0x50, 0x44, 0x46]
   \<and> input_pdf_setup one_page_converter plain_encoder
         (Some \<lparr>ident = 1, file_data = [0x25, 0x50, 0x44, 0x46]\<rparr>) =
       (Returns [[(lit ''mime_type'', lit ''image/jpeg''), (lit ''data'', lit ''JVBERg=='')]],
        [ConvertFromBytes [0x25, 0x50, 0x44, 0x46]])
   \<and> failing_converter [0x25] = Raises (ConversionError ''PDFPageCountError'')
   \<and> input_pdf_setup failing_converter plain_encoder (Some \<lparr>ident = 2, file_data = [0x25]\<rparr>) =
       (Raises (ConversionError ''PDFPageCountError''), [ConvertFromBytes [0x25]])"
  using input_pdf_setup_contract
          [of one_page_converter plain_encoder "\<lparr>ident = 1, file_data = [0x25, 0x50, 0x44, 0x46]\<rparr>"
              "[0x25, 0x50, 0x44, 0x46]" "[]" "[0x25, 0x50, 0x44, 0x46]"]
        input_pdf_setup_contract
          [of failing_converter plain_encoder "\<lparr>ident = 2, file_data = [0x25]\<rparr>" _ _ _
              "ConversionError ''PDFPageCountError''"]
  by (simp add: one_page_converter_def plain_encoder_def failing_converter_def
      b64_char_def b64_alphabet_def)

subsection \<open>The keyword path\<close>

lemmas decoder_defs =
  json_decode_def startswith_def match_number_def int_part_def frac_part_def exp_part_def
  isdigit_def int_of_digits_def escape_def hex4_at_def hex4_def hexval_def unescape_def

lemma fence_strip_fenced_response:
  \<open>fence_strip fenced_response =
     [10] @ lit ''{"Technical Skills":["A"],"Analytical Skills":[],"Soft Skills":["B"]}'' @ [10]\<close>
  by (simp add: fence_strip_def fenced_response_def strip_def isspace_def startswith_def
      py_slice_def slice_bound_def)

lemma decode_three_categories:
  \<open>json_decode parse_float
     ([10] @ lit ''{"Technical Skills":["A"],"Analytical Skills":[],"Soft Skills":["B"]}'' @ [10]) =
   Returns (PDict [(lit ''Technical Skills'', PList [PStr (lit ''A'')]),
                   (lit ''Analytical Skills'', PList []),
                   (lit ''Soft Skills'', PList [PStr (lit ''B'')])])\<close>
  by (simp add: decoder_defs)

lemma render_three_categories:
  "render_keywords (PDict [(lit ''Technical Skills'', PList [PStr (lit ''A'')]),
                           (lit ''Analytical Skills'', PList []),
                           (lit ''Soft Skills'', PList [PStr (lit ''B'')])]) =
     (Returns (),
      [Subheader (lit ''Extracted Skills''),
       Write (lit ''**Technical Skills:** A''),
       Write (lit ''**Analytical Skills:** ''),
       Write (lit ''**Soft Skills:** B'')])"
  by (simp add: render_keywords_def categories_def category_line_def)

lemma script_keywords:
  assumes "submit2 inp" "\<not> submit1 inp" "strip (input_text inp) \<noteq> []"
    and "current_resume inp st = Some f"
  shows "script L inp st =
           (case keywords_action L (input_text inp) (Some f) (pdf_cache st) of
              ((r, evs), c') \<Rightarrow>
                ((r, page_head inp @ evs), \<lparr>resume = Some (Some f), pdf_cache = c'\<rparr>))"
  using assms by (simp add: script_def pressed_and_valid_def validate_inputs_def Let_def)

lemma keywords_action_result:
  assumes "cached_input_pdf_setup (pdf2image_convert_from_bytes L) (image_save_jpeg L) c slot =
             ((Returns pdf_content, ev1), c')"
    and "get_gemini_response_keywords (model_generate_content L) (json_loads L) input_prompt2
           pdf_content job = (Returns v, ev2)"
  shows "keywords_action L job slot c =
           ((fst (render_keywords v),
             Spinner (lit ''Extracting keywords...'') # ev1 @ ev2 @ snd (render_keywords v)), c')"
  using assms by (simp add: keywords_action_def split: prod.splits)

lemma cached_input_pdf_setup_first:
  assumes "c (Some (ident f)) = None"
    and "convert_from_bytes (file_data f) = Returns (first_page # pages)"
    and "save_jpeg first_page = Returns jpeg"
  shows "cached_input_pdf_setup convert_from_bytes save_jpeg c (Some f) =
           ((Returns [[(lit ''mime_type'', lit ''image/jpeg''), (lit ''data'', b64encode jpeg)]],
             [ConvertFromBytes (file_data f)]),
            c(Some (ident f) \<mapsto>
                [[(lit ''mime_type'', lit ''image/jpeg''), (lit ''data'', b64encode jpeg)]]))"
  using assms by (simp add: cached_input_pdf_setup_def input_pdf_setup_def)

lemma get_gemini_response_keywords_returns:
  assumes "generate_content \<lparr>contents = [Text prompt, Blob p, Text job_description],
                              generation_config = temperature_config\<rparr> = Returns t"
  shows "get_gemini_response_keywords generate_content loads prompt (p # ps) job_description =
           ((case loads (fence_strip t) of
               Returns v \<Rightarrow> Returns v
             | Raises e \<Rightarrow>
                 if e = ResourceExhausted \<or> e = JSONDecodeError then Returns PNone else Raises e),
            [GenerateContent \<lparr>contents = [Text prompt, Blob p, Text job_description],
                              generation_config = temperature_config\<rparr>])"
  using assms by (simp add: get_gemini_response_keywords_def)

text \<open>
  C1. In a session with non-empty job text, a PDF uploaded whose rasterisation gives one
  page, and a model response that is exactly the fenced text (\<open>fenced_response\<close>), a press
  of "Get Keywords" does the following. The text handed to the JSON decoder is the
  response without its first 7 and last 3 characters, and it decodes to the mapping of the
  three categories. The run ends normally; after the page head it shows the spinner,
  rasterises the PDF, calls the model once, and writes under the subheader the three lines
  \<open>**Technical Skills:** A\<close>, \<open>**Analytical Skills:** \<close> and \<open>**Soft Skills:** B\<close>, which
  are displayed as "Technical Skills: A", "Analytical Skills: " and "Soft Skills: B".
\<close>

theorem keywords_for_fenced_response:
  assumes "uploaded_file inp = Some f"
    and "strip (input_text inp) \<noteq> []"
    and "submit2 inp" and "\<not> submit1 inp"
    and "pdf2image_convert_from_bytes L (file_data f) = Returns [page]"
    and "image_save_jpeg L page = Returns jpeg"
    and "pdf_cache st (Some (ident f)) = None"
    and "model_generate_content L
           \<lparr>contents = [Text input_prompt2,
                        Blob [(lit ''mime_type'', lit ''image/jpeg''), (lit ''data'', b64encode jpeg)],
                        Text (input_text inp)],
            generation_config = temperature_config\<rparr> = Returns fenced_response"
    and "json_loads L = json_decode parse_float"
  shows "fence_strip fenced_response = drop 7 (take (length fenced_response - 3) fenced_response)
       \<and> json_loads L (drop 7 (take (length fenced_response - 3) fenced_response)) =
           Returns (PDict [(lit ''Technical Skills'', PList [PStr (lit ''A'')]),
                           (lit ''Analytical Skills'', PList []),
                           (lit ''Soft Skills'', PList [PStr (lit ''B'')])])
       \<and> script L inp st =
           ((Returns (),
             page_head inp @
             [Spinner (lit ''Extracting keywords...''),
              ConvertFromBytes (file_data f),
              GenerateContent
                \<lparr>contents = [Text input_prompt2,
                             Blob [(lit ''mime_type'', lit ''image/jpeg''),
                                   (lit ''data'', b64encode jpeg)],
                             Text (input_text inp)],
                 generation_config = temperature_config\<rparr>,
              Subheader (lit ''Extracted Skills''),
              Write (lit ''**Technical Skills:** A''),
              Write (lit ''**Analytical Skills:** ''),
              Write (lit ''**Soft Skills:** B'')]),
            \<lparr>resume = Some (Some f),
             pdf_cache = (pdf_cache st)(Some (ident f) \<mapsto>
               [[(lit ''mime_type'', lit ''image/jpeg''), (lit ''data'', b64encode jpeg)]])\<rparr>)
       \<and> map displayed [lit ''**Technical Skills:** A'', lit ''**Analytical Skills:** '',
                         lit ''**Soft Skills:** B''] =
           [lit ''Technical Skills: A'', lit ''Analytical Skills: '', lit ''Soft Skills: B'']"
proof -
  let ?dict = "PDict [(lit ''Technical Skills'', PList [PStr (lit ''A'')]),
                      (lit ''Analytical Skills'', PList []),
                      (lit ''Soft Skills'', PList [PStr (lit ''B'')])]"
  have cut: "fence_strip fenced_response =
               drop 7 (take (length fenced_response - 3) fenced_response)"
    by (simp add: fence_strip_def fenced_response_def strip_def isspace_def startswith_def
        py_slice_def slice_bound_def)
  have dec: "json_loads L (fence_strip fenced_response) = Returns ?dict"
    unfolding assms(9) fence_strip_fenced_response by (rule decode_three_categories)
  have slot: "current_resume inp st = Some f"
    using assms(1) by (simp add: current_resume_def)
  note conv = cached_input_pdf_setup_first
    [where c = "pdf_cache st" and f = f and convert_from_bytes = "pdf2image_convert_from_bytes L"
       and save_jpeg = "image_save_jpeg L", OF assms(7) assms(5) assms(6)]
  have call: "get_gemini_response_keywords (model_generate_content L) (json_loads L)
                input_prompt2
                [[(lit ''mime_type'', lit ''image/jpeg''), (lit ''data'', b64encode jpeg)]]
                (input_text inp) =
              (Returns ?dict,
               [GenerateContent
                  \<lparr>contents = [Text input_prompt2,
                               Blob [(lit ''mime_type'', lit ''image/jpeg''),
                                     (lit ''data'', b64encode jpeg)],
                               Text (input_text inp)],
                   generation_config = temperature_config\<rparr>])"
    unfolding get_gemini_response_keywords_returns
      [where generate_content = "model_generate_content L", OF assms(8)] dec by simp
  have run: "script L inp st =
           ((Returns (),
             page_head inp @
             [Spinner (lit ''Extracting keywords...''),
              ConvertFromBytes (file_data f),
              GenerateContent
                \<lparr>contents = [Text input_prompt2,
                             Blob [(lit ''mime_type'', lit ''image/jpeg''),
                                   (lit ''data'', b64encode jpeg)],
                             Text (input_text inp)],
                 generation_config = temperature_config\<rparr>,
              Subheader (lit ''Extracted Skills''),
              Write (lit ''**Technical Skills:** A''),
              Write (lit ''**Analytical Skills:** ''),
              Write (lit ''**Soft Skills:** B'')]),
            \<lparr>resume = Some (Some f),
             pdf_cache = (pdf_cache st)(Some (ident f) \<mapsto>
               [[(lit ''mime_type'', lit ''image/jpeg''), (lit ''data'', b64encode jpeg)]])\<rparr>)"
    unfolding script_keywords [OF assms(3) assms(4) assms(2) slot]
      keywords_action_result [OF conv call] render_three_categories
    by simp
  have shown: "map displayed [lit ''**Technical Skills:** A'', lit ''**Analytical Skills:** '',
                              lit ''**Soft Skills:** B''] =
           [lit ''Technical Skills: A'', lit ''Analytical Skills: '', lit ''Soft Skills: B'']"
    by simp
  from cut dec run shown show ?thesis by simp
qed

theorem keywords_for_fenced_response_witness:
  "script (example_libs (Returns fenced_response))
     \<lparr>input_text = lit ''Data engineer'',
      uploaded_file = Some \<lparr>ident = 1, file_data = [0x25, 0x50, 0x44, 0x46]\<rparr>,
      submit1 = False, submit2 = True, submit3 = False\<rparr>
     \<lparr>resume = None, pdf_cache = Map.empty\<rparr> =
   ((Returns (),
     [SetPageConfig (lit ''ATS Resume Scanner''), Header (lit ''Application Tracking System''),
      Success (lit ''PDF uploaded successfully''),
      Spinner (lit ''Extracting keywords...''),
      ConvertFromBytes [0x25, 0x50, 0x44, 0x46],
      GenerateContent
        \<lparr>contents = [Text input_prompt2,
                     Blob [(lit ''mime_type'', lit ''image/jpeg''), (lit ''data'', lit ''JVBERg=='')],
                     Text (lit ''Data engineer'')],
         generation_config = temperature_config\<rparr>,
      Subheader (lit ''Extracted Skills''),
      Write (lit ''**Technical Skills:** A''),
      Write (lit ''**Analytical Skills:** ''),
      Write (lit ''**Soft Skills:** B'')]),
    \<lparr>resume = Some (Some \<lparr>ident = 1, file_data = [0x25, 0x50, 0x44, 0x46]\<rparr>),
     pdf_cache = Map.empty(Some 1 \<mapsto>
       [[(lit ''mime_type'', lit ''image/jpeg''), (lit ''data'', lit ''JVBERg=='')]])\<rparr>)"
  using keywords_for_fenced_response
    [where inp = "\<lparr>input_text = lit ''Data engineer'',
                   uploaded_file = Some \<lparr>ident = 1, file_data = [0x25, 0x50, 0x44, 0x46]\<rparr>,
                   submit1 = False, submit2 = True, submit3 = False\<rparr>"
       and f = "\<lparr>ident = 1, file_data = [0x25, 0x50, 0x44, 0x46]\<rparr>"
       and L = "example_libs (Returns fenced_response)"
       and page = "[0x25, 0x50, 0x44, 0x46]" and jpeg = "[0x25, 0x50, 0x44, 0x46]"
       and st = "\<lparr>resume = None, pdf_cache = Map.empty\<rparr>"
       and parse_float = unused_parse_float]
  by (simp add: example_libs_def one_page_converter_def plain_encoder_def strip_def isspace_def
      page_head_def b64_char_def b64_alphabet_def)

subsection \<open>When the keyword path returns None\<close>

lemma example_libs_answer: "model_generate_content (example_libs (Returns t)) r = Returns t"
  by (simp add: example_libs_def)

text \<open>
  C3, as the claim states it, fails in both directions of its "exactly when". For the
  response text \<open>null\<close> the provider call raises nothing and the text is valid JSON, yet
  \<open>get_gemini_response_keywords\<close> returns \<open>None\<close>, because \<open>None\<close> is what the JSON
  literal \<open>null\<close> decodes to. The response text \<open>NaN\<close> is not valid JSON, yet \<open>json.loads\<close>
  accepts it and the function returns the float \<open>nan\<close>, not \<open>None\<close>; that value is truthy,
  so the "Get Keywords" action goes on to \<open>response.get\<close> and ends with \<open>AttributeError\<close>
  after the subheader.
\<close>

theorem keywords_none_counterexample:
  "fence_strip (lit ''null'') = lit ''null''
   \<and> json_decode unused_parse_float (lit ''null'') = Returns PNone
   \<and> get_gemini_response_keywords (\<lambda>r. Returns (lit ''null''))
         (json_decode unused_parse_float) input_prompt2
         [[(lit ''mime_type'', lit ''image/jpeg''), (lit ''data'', lit ''JVBERg=='')]]
         (lit ''Data engineer'') =
       (Returns PNone,
        [GenerateContent
           \<lparr>contents = [Text input_prompt2,
                        Blob [(lit ''mime_type'', lit ''image/jpeg''),
                              (lit ''data'', lit ''JVBERg=='')],
                        Text (lit ''Data engineer'')],
            generation_config = temperature_config\<rparr>])
   \<and> fence_strip (lit ''NaN'') = lit ''NaN''
   \<and> json_decode unused_parse_float (lit ''NaN'') = Returns (PFloat 0x7FF8000000000000)
   \<and> get_gemini_response_keywords (\<lambda>r. Returns (lit ''NaN''))
         (json_decode unused_parse_float) input_prompt2
         [[(lit ''mime_type'', lit ''image/jpeg''), (lit ''data'', lit ''JVBERg=='')]]
         (lit ''Data engineer'') =
       (Returns (PFloat 0x7FF8000000000000),
        [GenerateContent
           \<lparr>contents = [Text input_prompt2,
                        Blob [(lit ''mime_type'', lit ''image/jpeg''),
                              (lit ''data'', lit ''JVBERg=='')],
                        Text (lit ''Data engineer'')],
            generation_config = temperature_config\<rparr>])
   \<and> render_keywords (PFloat 0x7FF8000000000000) =
       (Raises AttributeError, [Subheader (lit ''Extracted Skills'')])"
proof -
  have a: "fence_strip (lit ''null'') = lit ''null''"
    by (simp add: fence_strip_def strip_def isspace_def startswith_def)
  have b: "json_decode unused_parse_float (lit ''null'') = Returns PNone"
    by (simp add: decoder_defs)
  have c: "get_gemini_response_keywords (\<lambda>r. Returns (lit ''null''))
             (json_decode unused_parse_float) input_prompt2
             [[(lit ''mime_type'', lit ''image/jpeg''), (lit ''data'', lit ''JVBERg=='')]]
             (lit ''Data engineer'') =
           (Returns PNone,
            [GenerateContent
               \<lparr>contents = [Text input_prompt2,
                            Blob [(lit ''mime_type'', lit ''image/jpeg''),
                                  (lit ''data'', lit ''JVBERg=='')],
                            Text (lit ''Data engineer'')],
                generation_config = temperature_config\<rparr>])"
    unfolding get_gemini_response_keywords_returns
      [where generate_content = "\<lambda>r. Returns (lit ''null'')" and t = "lit ''null''", OF refl]
      a b
    by simp
  have d: "fence_strip (lit ''NaN'') = lit ''NaN''"
    by (simp add: fence_strip_def strip_def isspace_def startswith_def)
  have e: "json_decode unused_parse_float (lit ''NaN'') = Returns (PFloat 0x7FF8000000000000)"
    by (simp add: decoder_defs)
  have f: "get_gemini_response_keywords (\<lambda>r. Returns (lit ''NaN''))
             (json_decode unused_parse_float) input_prompt2
             [[(lit ''mime_type'', lit ''image/jpeg''), (lit ''data'', lit ''JVBERg=='')]]
             (lit ''Data engineer'') =
           (Returns (PFloat 0x7FF8000000000000),
            [GenerateContent
               \<lparr>contents = [Text input_prompt2,
                            Blob [(lit ''mime_type'', lit ''image/jpeg''),
                                  (lit ''data'', lit ''JVBERg=='')],
                            Text (lit ''Data engineer'')],
                generation_config = temperature_config\<rparr>])"
    unfolding get_gemini_response_keywords_returns
      [where generate_content = "\<lambda>r. Returns (lit ''NaN'')" and t = "lit ''NaN''", OF refl]
      d e
    by simp
  have g: "render_keywords (PFloat 0x7FF8000000000000) =
             (Raises AttributeError, [Subheader (lit ''Extracted Skills'')])"
    by (simp add: render_keywords_def categories_def category_line_def)
  from a b c d e f g show ?thesis by blast
qed

text \<open>
  C3, amended. For every input, \<open>get_gemini_response_keywords\<close> returns \<open>None\<close> exactly
  when an exception of class \<open>ResourceExhausted\<close> or \<open>json.JSONDecodeError\<close> is raised
  inside its \<open>try\<close> block, by the provider call or by \<open>json.loads\<close> applied to the
  (possibly fence-stripped) response text, or \<open>json.loads\<close> returns \<open>None\<close> for that text
  (as it does for the JSON literal \<open>null\<close>). Any other exception that \<open>json.loads\<close> raises
  (\<open>RecursionError\<close> on a text nested too deeply, \<open>ValueError\<close> on an integer literal that
  is too long) is not caught: the function ends by raising it, after its one provider
  call. And on a \<open>None\<close> result the "Get Keywords" action ends normally with the generic
  extraction-failure message in place of the skill lists.
\<close>

theorem keywords_none_iff:
  "(fst (get_gemini_response_keywords generate_content loads prompt pdf_content
           job_description) = Returns PNone
    \<longleftrightarrow>
    (\<exists>p ps. pdf_content = p # ps
       \<and> (generate_content \<lparr>contents = [Text prompt, Blob p, Text job_description],
                             generation_config = temperature_config\<rparr> = Raises ResourceExhausted
          \<or> generate_content \<lparr>contents = [Text prompt, Blob p, Text job_description],
                               generation_config = temperature_config\<rparr> = Raises JSONDecodeError
          \<or> (\<exists>t. generate_content \<lparr>contents = [Text prompt, Blob p, Text job_description],
                                    generation_config = temperature_config\<rparr> = Returns t
                 \<and> (loads (fence_strip t) = Raises ResourceExhausted
                      \<or> loads (fence_strip t) = Raises JSONDecodeError
                      \<or> loads (fence_strip t) = Returns PNone)))))
   \<and> (\<forall>p ps t e.
         pdf_content = p # ps
         \<longrightarrow> generate_content \<lparr>contents = [Text prompt, Blob p, Text job_description],
                                generation_config = temperature_config\<rparr> = Returns t
         \<longrightarrow> loads (fence_strip t) = Raises e
         \<longrightarrow> e \<noteq> ResourceExhausted \<longrightarrow> e \<noteq> JSONDecodeError
         \<longrightarrow> get_gemini_response_keywords generate_content loads prompt pdf_content
               job_description =
               (Raises e,
                [GenerateContent \<lparr>contents = [Text prompt, Blob p, Text job_description],
                                  generation_config = temperature_config\<rparr>]))
   \<and> (\<forall>L job slot c content conv_events c' call_events.
         cached_input_pdf_setup (pdf2image_convert_from_bytes L) (image_save_jpeg L) c slot =
           ((Returns content, conv_events), c')
         \<longrightarrow> get_gemini_response_keywords (model_generate_content L) (json_loads L)
               input_prompt2 content job = (Returns PNone, call_events)
         \<longrightarrow> keywords_action L job slot c =
               ((Returns (),
                 Spinner (lit ''Extracting keywords...'') # conv_events @ call_events @
                 [Error (lit ''Could not extract skills. Please try again.'')]), c'))"
proof (intro conjI)
  show "fst (get_gemini_response_keywords generate_content loads prompt pdf_content
               job_description) = Returns PNone
        \<longleftrightarrow>
        (\<exists>p ps. pdf_content = p # ps
           \<and> (generate_content \<lparr>contents = [Text prompt, Blob p, Text job_description],
                                 generation_config = temperature_config\<rparr> = Raises ResourceExhausted
              \<or> generate_content \<lparr>contents = [Text prompt, Blob p, Text job_description],
                                   generation_config = temperature_config\<rparr> = Raises JSONDecodeError
              \<or> (\<exists>t. generate_content \<lparr>contents = [Text prompt, Blob p, Text job_description],
                                        generation_config = temperature_config\<rparr> = Returns t
                     \<and> (loads (fence_strip t) = Raises ResourceExhausted
                          \<or> loads (fence_strip t) = Raises JSONDecodeError
                          \<or> loads (fence_strip t) = Returns PNone))))"
  proof (cases pdf_content)
    case Nil
    then show ?thesis by (simp add: get_gemini_response_keywords_def)
  next
    case (Cons p ps)
    let ?req = "\<lparr>contents = [Text prompt, Blob p, Text job_description],
                  generation_config = temperature_config\<rparr>"
    show ?thesis
    proof (cases "generate_content ?req")
      case (Raises e)
      with Cons show ?thesis by (simp add: get_gemini_response_keywords_def)
    next
      case (Returns t)
      show ?thesis
      proof (cases "loads (fence_strip t)")
        case inner: (Returns v)
        with Cons Returns show ?thesis by (simp add: get_gemini_response_keywords_def)
      next
        case inner: (Raises e)
        with Cons Returns show ?thesis by (simp add: get_gemini_response_keywords_def)
      qed
    qed
  qed
next
  show "\<forall>p ps t e.
          pdf_content = p # ps
          \<longrightarrow> generate_content \<lparr>contents = [Text prompt, Blob p, Text job_description],
                                 generation_config = temperature_config\<rparr> = Returns t
          \<longrightarrow> loads (fence_strip t) = Raises e
          \<longrightarrow> e \<noteq> ResourceExhausted \<longrightarrow> e \<noteq> JSONDecodeError
          \<longrightarrow> get_gemini_response_keywords generate_content loads prompt pdf_content
                job_description =
                (Raises e,
                 [GenerateContent \<lparr>contents = [Text prompt, Blob p, Text job_description],
                                   generation_config = temperature_config\<rparr>])"
    by (simp add: get_gemini_response_keywords_def)
next
  show "\<forall>L job slot c content conv_events c' call_events.
          cached_input_pdf_setup (pdf2image_convert_from_bytes L) (image_save_jpeg L) c slot =
            ((Returns content, conv_events), c')
          \<longrightarrow> get_gemini_response_keywords (model_generate_content L) (json_loads L)
                input_prompt2 content job = (Returns PNone, call_events)
          \<longrightarrow> keywords_action L job slot c =
                ((Returns (),
                  Spinner (lit ''Extracting keywords...'') # conv_events @ call_events @
                  [Error (lit ''Could not extract skills. Please try again.'')]), c')"
    by (simp add: keywords_action_def render_keywords_def extraction_failure_def)
qed

text \<open>
  The theorem at three inputs. The response text \<open>not json\<close> is outside the grammar, the
  decoder raises \<open>JSONDecodeError\<close> and the function returns \<open>None\<close>. With a decoder that
  has no stack left and raises \<open>RecursionError\<close>, the function raises \<open>RecursionError\<close>.
  And the "Get Keywords" action on the first response shows the failure message.
\<close>

theorem keywords_none_iff_witness:
  "json_decode unused_parse_float (fence_strip (lit ''not json'')) = Raises JSONDecodeError
   \<and> fst (get_gemini_response_keywords (\<lambda>r. Returns (lit ''not json''))
            (json_decode unused_parse_float) input_prompt2
            [[(lit ''mime_type'', lit ''image/jpeg''), (lit ''data'', lit ''JVBERg=='')]]
            (lit ''Data engineer'')) = Returns PNone
   \<and> get_gemini_response_keywords (\<lambda>r. Returns (lit ''[[[[''))
         (\<lambda>s. Raises RecursionError) input_prompt2
         [[(lit ''mime_type'', lit ''image/jpeg''), (lit ''data'', lit ''JVBERg=='')]]
         (lit ''Data engineer'') =
       (Raises RecursionError,
        [GenerateContent
           \<lparr>contents = [Text input_prompt2,
                        Blob [(lit ''mime_type'', lit ''image/jpeg''),
                              (lit ''data'', lit ''JVBERg=='')],
                        Text (lit ''Data engineer'')],
            generation_config = temperature_config\<rparr>])
   \<and> keywords_action (example_libs (Returns (lit ''not json''))) (lit ''Data engineer'')
         (Some \<lparr>ident = 1, file_data = [0x25, 0x50, 0x44, 0x46]\<rparr>) Map.empty =
       ((Returns (),
         [Spinner (lit ''Extracting keywords...''),
          ConvertFromBytes [0x25, 0x50, 0x44, 0x46],
          GenerateContent
            \<lparr>contents = [Text input_prompt2,
                         Blob [(lit ''mime_type'', lit ''image/jpeg''),
                               (lit ''data'', lit ''JVBERg=='')],
                         Text (lit ''Data engineer'')],
             generation_config = temperature_config\<rparr>,
          Error (lit ''Could not extract skills. Please try again.'')]),
        Map.empty(Some 1 \<mapsto>
          [[(lit ''mime_type'', lit ''image/jpeg''), (lit ''data'', lit ''JVBERg=='')]]))"
proof -
  let ?f = "\<lparr>ident = 1, file_data = [0x25, 0x50, 0x44, 0x46]\<rparr>"
  let ?part = "[(lit ''mime_type'', lit ''image/jpeg''), (lit ''data'', lit ''JVBERg=='')]"
  let ?job = "lit ''Data engineer''"
  let ?req = "\<lparr>contents = [Text input_prompt2, Blob ?part, Text ?job],
                generation_config = temperature_config\<rparr>"
  let ?L = "example_libs (Returns (lit ''not json''))"
  have a: "json_decode unused_parse_float (fence_strip (lit ''not json'')) = Raises JSONDecodeError"
    by (simp add: fence_strip_def strip_def isspace_def decoder_defs)
  note none = keywords_none_iff
    [where generate_content = "\<lambda>r. Returns (lit ''not json'')"
       and loads = "json_decode unused_parse_float" and prompt = input_prompt2
       and pdf_content = "[?part]" and job_description = ?job, THEN conjunct1]
  have b: "fst (get_gemini_response_keywords (\<lambda>r. Returns (lit ''not json''))
                  (json_decode unused_parse_float) input_prompt2 [?part] ?job) = Returns PNone"
    unfolding none using a by simp
  note other = keywords_none_iff
    [where generate_content = "\<lambda>r. Returns (lit ''[[[['')"
       and loads = "\<lambda>s. Raises RecursionError" and prompt = input_prompt2
       and pdf_content = "[?part]" and job_description = ?job,
     THEN conjunct2, THEN conjunct1, rule_format,
     where p = ?part and ps = "[]" and t = "lit ''[[[[''" and e = RecursionError]
  have c: "get_gemini_response_keywords (\<lambda>r. Returns (lit ''[[[[''))
             (\<lambda>s. Raises RecursionError) input_prompt2 [?part] ?job =
           (Raises RecursionError, [GenerateContent ?req])"
    by (rule other) simp_all
  have conv: "cached_input_pdf_setup (pdf2image_convert_from_bytes ?L) (image_save_jpeg ?L)
                Map.empty (Some ?f) =
              ((Returns [?part], [ConvertFromBytes [0x25, 0x50, 0x44, 0x46]]),
               Map.empty(Some 1 \<mapsto> [?part]))"
    by (simp add: example_libs_def cached_input_pdf_setup_def input_pdf_setup_def
        one_page_converter_def plain_encoder_def b64_char_def b64_alphabet_def)
  have call: "get_gemini_response_keywords (model_generate_content ?L) (json_loads ?L)
                input_prompt2 [?part] ?job = (Returns PNone, [GenerateContent ?req])"
    unfolding get_gemini_response_keywords_returns
      [where generate_content = "model_generate_content ?L" and t = "lit ''not json''"
         and p = ?part and prompt = input_prompt2 and job_description = ?job,
       OF example_libs_answer]
    using a by (simp add: example_libs_def)
  note shown = keywords_none_iff
    [where generate_content = "\<lambda>r. Returns (lit ''not json'')"
       and loads = "json_decode unused_parse_float" and prompt = input_prompt2
       and pdf_content = "[?part]" and job_description = ?job,
     THEN conjunct2, THEN conjunct2, rule_format, OF conv call]
  have d: "keywords_action ?L ?job (Some ?f) Map.empty =
             ((Returns (),
               [Spinner (lit ''Extracting keywords...''),
                ConvertFromBytes [0x25, 0x50, 0x44, 0x46],
                GenerateContent ?req,
                Error (lit ''Could not extract skills. Please try again.'')]),
              Map.empty(Some 1 \<mapsto> [?part]))"
    unfolding shown by simp
  from a b c d show ?thesis by blast
qed

text \<open>
  C10. When a press of "Get Keywords" gets a response whose (possibly fence-stripped) text
  decodes to a falsy value (\<open>{}\<close>, \<open>[]\<close>, \<open>null\<close>, \<open>0\<close>, \<open>""\<close>, \<open>false\<close>), the run ends
  normally with the generic extraction-failure message after the model call, and it is the
  very run that a decoder failing on every text would give: the caller tests the truth
  value of what was returned.
\<close>

theorem falsy_value_shows_failure:
  assumes "submit2 inp" and "\<not> submit1 inp" and "strip (input_text inp) \<noteq> []"
    and "current_resume inp st = Some f"
    and "cached_input_pdf_setup (pdf2image_convert_from_bytes L) (image_save_jpeg L)
           (pdf_cache st) (Some f) = ((Returns (p # ps), conv_events), c')"
    and "model_generate_content L
           \<lparr>contents = [Text input_prompt2, Blob p, Text (input_text inp)],
            generation_config = temperature_config\<rparr> = Returns t"
    and "json_loads L (fence_strip t) = Returns v"
    and "\<not> truthy v"
  shows "script L inp st =
           ((Returns (),
             page_head inp @ Spinner (lit ''Extracting keywords...'') # conv_events @
             [GenerateContent \<lparr>contents = [Text input_prompt2, Blob p, Text (input_text inp)],
                               generation_config = temperature_config\<rparr>,
              Error (lit ''Could not extract skills. Please try again.'')]),
            \<lparr>resume = Some (Some f), pdf_cache = c'\<rparr>)
       \<and> script (L\<lparr>json_loads := \<lambda>s. Raises JSONDecodeError\<rparr>) inp st = script L inp st"
proof -
  let ?req = "\<lparr>contents = [Text input_prompt2, Blob p, Text (input_text inp)],
                generation_config = temperature_config\<rparr>"
  let ?L' = "L\<lparr>json_loads := \<lambda>s. Raises JSONDecodeError\<rparr>"
  have call: "get_gemini_response_keywords (model_generate_content L) (json_loads L)
                input_prompt2 (p # ps) (input_text inp) = (Returns v, [GenerateContent ?req])"
    unfolding get_gemini_response_keywords_returns
      [where generate_content = "model_generate_content L", OF assms(6)]
    using assms(7) by simp
  have call': "get_gemini_response_keywords (model_generate_content ?L') (json_loads ?L')
                 input_prompt2 (p # ps) (input_text inp) = (Returns PNone, [GenerateContent ?req])"
    using assms(6) by (simp add: get_gemini_response_keywords_def)
  have conv': "cached_input_pdf_setup (pdf2image_convert_from_bytes ?L') (image_save_jpeg ?L')
                 (pdf_cache st) (Some f) = ((Returns (p # ps), conv_events), c')"
    using assms(5) by simp
  have shown: "render_keywords v =
                 (Returns (), [Error (lit ''Could not extract skills. Please try again.'')])"
    using assms(8) by (simp add: render_keywords_def extraction_failure_def)
  have shown': "render_keywords PNone =
                  (Returns (), [Error (lit ''Could not extract skills. Please try again.'')])"
    by (simp add: render_keywords_def extraction_failure_def)
  have run: "script L inp st =
           ((Returns (),
             page_head inp @ Spinner (lit ''Extracting keywords...'') # conv_events @
             [GenerateContent ?req,
              Error (lit ''Could not extract skills. Please try again.'')]),
            \<lparr>resume = Some (Some f), pdf_cache = c'\<rparr>)"
    unfolding script_keywords [OF assms(1) assms(2) assms(3) assms(4)]
      keywords_action_result [OF assms(5) call] shown
    by simp
  have run': "script ?L' inp st =
           ((Returns (),
             page_head inp @ Spinner (lit ''Extracting keywords...'') # conv_events @
             [GenerateContent ?req,
              Error (lit ''Could not extract skills. Please try again.'')]),
            \<lparr>resume = Some (Some f), pdf_cache = c'\<rparr>)"
    unfolding script_keywords [OF assms(1) assms(2) assms(3) assms(4)]
      keywords_action_result [OF conv' call'] shown'
    by simp
  from run run' show ?thesis by simp
qed

theorem falsy_value_shows_failure_witness:
  "json_decode unused_parse_float (fence_strip (lit ''{}'')) = Returns (PDict [])
   \<and> script (example_libs (Returns (lit ''{}'')))
       \<lparr>input_text = lit ''Data engineer'',
        uploaded_file = Some \<lparr>ident = 1, file_data = [0x25, 0x50, 0x44, 0x46]\<rparr>,
        submit1 = False, submit2 = True, submit3 = False\<rparr>
       \<lparr>resume = None, pdf_cache = Map.empty\<rparr> =
     ((Returns (),
       [SetPageConfig (lit ''ATS Resume Scanner''), Header (lit ''Application Tracking System''),
        Success (lit ''PDF uploaded successfully''),
        Spinner (lit ''Extracting keywords...''),
        ConvertFromBytes [0x25, 0x50, 0x44, 0x46],
        GenerateContent
          \<lparr>contents = [Text input_prompt2,
                       Blob [(lit ''mime_type'', lit ''image/jpeg''), (lit ''data'', lit ''JVBERg=='')],
                       Text (lit ''Data engineer'')],
           generation_config = temperature_config\<rparr>,
        Error (lit ''Could not extract skills. Please try again.'')]),
      \<lparr>resume = Some (Some \<lparr>ident = 1, file_data = [0x25, 0x50, 0x44, 0x46]\<rparr>),
       pdf_cache = Map.empty(Some 1 \<mapsto>
         [[(lit ''mime_type'', lit ''image/jpeg''), (lit ''data'', lit ''JVBERg=='')]])\<rparr>)"
proof -
  let ?f = "\<lparr>ident = 1, file_data = [0x25, 0x50, 0x44, 0x46]\<rparr>"
  let ?part = "[(lit ''mime_type'', lit ''image/jpeg''), (lit ''data'', lit ''JVBERg=='')]"
  have dec: "json_decode unused_parse_float (fence_strip (lit ''{}'')) = Returns (PDict [])"
    by (simp add: fence_strip_def strip_def isspace_def decoder_defs)
  have conv: "cached_input_pdf_setup one_page_converter plain_encoder Map.empty (Some ?f) =
                ((Returns (?part # []), [ConvertFromBytes [0x25, 0x50, 0x44, 0x46]]),
                 Map.empty(Some 1 \<mapsto> [?part]))"
    by (simp add: cached_input_pdf_setup_def input_pdf_setup_def one_page_converter_def
        plain_encoder_def b64_char_def b64_alphabet_def)
  from falsy_value_shows_failure
    [where inp = "\<lparr>input_text = lit ''Data engineer'', uploaded_file = Some ?f,
                   submit1 = False, submit2 = True, submit3 = False\<rparr>"
       and st = "\<lparr>resume = None, pdf_cache = Map.empty\<rparr>" and f = ?f
       and L = "example_libs (Returns (lit ''{}''))" and p = ?part and ps = "[]"
       and conv_events = "[ConvertFromBytes [0x25, 0x50, 0x44, 0x46]]"
       and c' = "Map.empty(Some 1 \<mapsto> [?part])" and t = "lit ''{}''" and v = "PDict []"]
    dec conv
  show ?thesis
    by (simp add: example_libs_def strip_def isspace_def current_resume_def page_head_def)
qed

subsection \<open>Rendering a truthy mapping\<close>

lemma strs_of_strings: "strs_of (map PStr xs) = Some xs"
  by (induction xs) simp_all

lemma category_line_listed:
  assumes "map_of kvs label = map_option (\<lambda>xs. PList (map PStr xs)) items"
  shows "category_line label (PDict kvs) =
           Returns (lit ''**'' @ label @ lit '':** '' @
                    join_strs (lit '', '') (case items of None \<Rightarrow> [] | Some xs \<Rightarrow> xs))"
  using assms by (cases items) (simp_all add: category_line_def strs_of_strings)

text \<open>
  C8, as the claim states it, fails: the mapping \<open>{"Technical Skills": 5}\<close> is truthy and
  is what the decoder returns for that text, but joining the number raises \<open>TypeError\<close>;
  the run ends there, with only the subheader written.
\<close>

theorem render_keywords_counterexample:
  \<open>json_decode unused_parse_float (lit ''{"Technical Skills": 5}'') =
     Returns (PDict [(lit ''Technical Skills'', PInt 5)])
   \<and> truthy (PDict [(lit ''Technical Skills'', PInt 5)])
   \<and> render_keywords (PDict [(lit ''Technical Skills'', PInt 5)]) =
       (Raises TypeError, [Subheader (lit ''Extracted Skills'')])\<close>
  by (simp add: decoder_defs render_keywords_def categories_def category_line_def)

text \<open>
  C8, amended. When the parse succeeds and returns a truthy mapping in which each of the
  three categories is either absent or a list of strings, the result is rendered as three
  comma-joined lists under the fixed labels Technical Skills, Analytical Skills and Soft
  Skills, in this order; an absent category counts as the empty list, and an empty list
  is rendered as the empty string after its label.
\<close>

theorem render_keywords_lists:
  assumes "kvs \<noteq> []"
    and "map_of kvs (lit ''Technical Skills'') = map_option (\<lambda>xs. PList (map PStr xs)) technical"
    and "map_of kvs (lit ''Analytical Skills'') = map_option (\<lambda>xs. PList (map PStr xs)) analytical"
    and "map_of kvs (lit ''Soft Skills'') = map_option (\<lambda>xs. PList (map PStr xs)) soft"
  shows "render_keywords (PDict kvs) =
           (Returns (),
            [Subheader (lit ''Extracted Skills''),
             Write (lit ''**Technical Skills:** '' @
                    join_strs (lit '', '') (case technical of None \<Rightarrow> [] | Some xs \<Rightarrow> xs)),
             Write (lit ''**Analytical Skills:** '' @
                    join_strs (lit '', '') (case analytical of None \<Rightarrow> [] | Some xs \<Rightarrow> xs)),
             Write (lit ''**Soft Skills:** '' @
                    join_strs (lit '', '') (case soft of None \<Rightarrow> [] | Some xs \<Rightarrow> xs))])
       \<and> join_strs (lit '', '') [] = []"
proof -
  note lines = category_line_listed [OF assms(2)] category_line_listed [OF assms(3)]
    category_line_listed [OF assms(4)]
  show ?thesis
    unfolding render_keywords_def categories_def write_lines.simps lines
    using assms(1) by simp
qed

theorem render_keywords_lists_witness:
  "render_keywords
     (PDict [(lit ''Soft Skills'', PList [PStr (lit ''Teamwork'')]),
             (lit ''Technical Skills'', PList [PStr (lit ''Python''), PStr (lit ''SQL'')])]) =
   (Returns (),
    [Subheader (lit ''Extracted Skills''),
     Write (lit ''**Technical Skills:** Python, SQL''),
     Write (lit ''**Analytical Skills:** ''),
     Write (lit ''**Soft Skills:** Teamwork'')])"
  using render_keywords_lists
    [where kvs = "[(lit ''Soft Skills'', PList [PStr (lit ''Teamwork'')]),
                   (lit ''Technical Skills'', PList [PStr (lit ''Python''), PStr (lit ''SQL'')])]"
       and technical = "Some [lit ''Python'', lit ''SQL'']" and analytical = None
       and soft = "Some [lit ''Teamwork'']"]
  by simp

subsection \<open>The converter's cache\<close>

lemma cached_input_pdf_setup_hit:
  "c (map_option ident slot) = Some v
   \<Longrightarrow> cached_input_pdf_setup convert_from_bytes save_jpeg c slot = ((Returns v, []), c)"
  by (simp add: cached_input_pdf_setup_def)

lemma cached_input_pdf_setup_miss:
  "c (map_option ident slot) = None
   \<Longrightarrow> input_pdf_setup convert_from_bytes save_jpeg slot = (Returns v, evs)
   \<Longrightarrow> cached_input_pdf_setup convert_from_bytes save_jpeg c slot =
         ((Returns v, evs), c(map_option ident slot \<mapsto> v))"
  by (simp add: cached_input_pdf_setup_def)

lemma input_pdf_setup_conversions:
  "input_pdf_setup convert_from_bytes save_jpeg (Some f) = (r, evs)
   \<Longrightarrow> evs = [ConvertFromBytes (file_data f)]"
  by (auto simp: input_pdf_setup_def split: outcome.splits list.splits)

lemma narrative_action_parts:
  assumes "cached_input_pdf_setup (pdf2image_convert_from_bytes L) (image_save_jpeg L) c slot =
             ((r, evs), c')"
  shows "snd (narrative_action L spinner_text prompt heading job slot c) = c'"
    and "filter is_conversion (snd (fst (narrative_action L spinner_text prompt heading job slot c)))
           = filter is_conversion evs"
proof -
  show "snd (narrative_action L spinner_text prompt heading job slot c) = c'"
    using assms by (cases r) (simp_all add: narrative_action_def split: prod.splits outcome.splits)
  show "filter is_conversion (snd (fst (narrative_action L spinner_text prompt heading job slot c)))
          = filter is_conversion evs"
  proof (cases r)
    case (Raises e)
    with assms show ?thesis by (simp add: narrative_action_def)
  next
    case (Returns pc)
    obtain r2 ev2 where g: "get_gemini_response (model_generate_content L) prompt pc job = (r2, ev2)"
      by (cases "get_gemini_response (model_generate_content L) prompt pc job") auto
    from get_gemini_response_no_conversion [of "model_generate_content L" prompt pc job] g
    have "filter is_conversion ev2 = []" by simp
    with assms Returns g show ?thesis
      by (cases r2) (simp_all add: narrative_action_def)
  qed
qed

lemma keywords_action_parts:
  assumes "cached_input_pdf_setup (pdf2image_convert_from_bytes L) (image_save_jpeg L) c slot =
             ((r, evs), c')"
  shows "snd (keywords_action L job slot c) = c'"
    and "filter is_conversion (snd (fst (keywords_action L job slot c))) = filter is_conversion evs"
proof -
  show "snd (keywords_action L job slot c) = c'"
    using assms by (cases r) (simp_all add: keywords_action_def split: prod.splits outcome.splits)
  show "filter is_conversion (snd (fst (keywords_action L job slot c))) = filter is_conversion evs"
  proof (cases r)
    case (Raises e)
    with assms show ?thesis by (simp add: keywords_action_def)
  next
    case (Returns pc)
    obtain r2 ev2 where g: "get_gemini_response_keywords (model_generate_content L) (json_loads L)
                              input_prompt2 pc job = (r2, ev2)"
      by (cases "get_gemini_response_keywords (model_generate_content L) (json_loads L)
                   input_prompt2 pc job") auto
    from get_gemini_response_keywords_no_conversion
           [of "model_generate_content L" "json_loads L" input_prompt2 pc job] g
    have q: "filter is_conversion ev2 = []" by simp
    show ?thesis
    proof (cases r2)
      case e: (Raises e)
      with assms Returns g q show ?thesis by (simp add: keywords_action_def)
    next
      case v: (Returns v)
      obtain r3 ev3 where k: "render_keywords v = (r3, ev3)"
        by (cases "render_keywords v") auto
      from render_keywords_no_conversion [of v] k have "filter is_conversion ev3 = []" by simp
      with assms Returns g q v k show ?thesis by (simp add: keywords_action_def)
    qed
  qed
qed

text \<open>
  A run with a pressed button and valid inputs: its conversions and the cache it leaves are
  those of the one (decorated) converter call.
\<close>

lemma script_valid_press:
  assumes "submit1 inp \<or> submit2 inp \<or> submit3 inp"
    and "strip (input_text inp) \<noteq> []"
    and "current_resume inp st = Some f"
    and "cached_input_pdf_setup (pdf2image_convert_from_bytes L) (image_save_jpeg L)
           (pdf_cache st) (Some f) = ((r, evs), c')"
  shows "snd (script L inp st) = \<lparr>resume = Some (Some f), pdf_cache = c'\<rparr>"
    and "filter is_conversion (snd (fst (script L inp st))) = filter is_conversion evs"
proof -
  have v: "validate_inputs (input_text inp) (Some f) = (True, [])"
    using assms(2) by (simp add: validate_inputs_def)
  note n = narrative_action_parts [OF assms(4)]
  note k = keywords_action_parts [OF assms(4)]
  consider (one) "submit1 inp" | (two) "\<not> submit1 inp" "submit2 inp"
    | (three) "\<not> submit1 inp" "\<not> submit2 inp" "submit3 inp"
    using assms(1) by blast
  then have "snd (script L inp st) = \<lparr>resume = Some (Some f), pdf_cache = c'\<rparr>
             \<and> filter is_conversion (snd (fst (script L inp st))) = filter is_conversion evs"
  proof cases
    case one
    with v assms(3) show ?thesis
      using n [of "lit ''Analyzing resume...''" input_prompt1 "lit ''Resume Evaluation''"
                  "input_text inp"]
      by (simp add: script_def pressed_and_valid_def Let_def page_head_quiet case_prod_beta)
  next
    case two
    with v assms(3) show ?thesis
      using k [of "input_text inp"]
      by (simp add: script_def pressed_and_valid_def Let_def page_head_quiet case_prod_beta)
  next
    case three
    with v assms(3) show ?thesis
      using n [of "lit ''Calculating match percentage...''" input_prompt3
                  "lit ''ATS Match Result''" "input_text inp"]
      by (simp add: script_def pressed_and_valid_def Let_def page_head_quiet case_prod_beta)
  qed
  then show "snd (script L inp st) = \<lparr>resume = Some (Some f), pdf_cache = c'\<rparr>"
    and "filter is_conversion (snd (fst (script L inp st))) = filter is_conversion evs"
    by simp_all
qed

text \<open>
  A run that finds the file's image in the cache converts nothing and leaves the cache and
  the file in place, whatever is pressed.
\<close>

lemma script_with_cached_image:
  assumes "uploaded_file inp = None \<or> uploaded_file inp = Some f"
    and "resume st = Some (Some f)"
    and "pdf_cache st (Some (ident f)) = Some v"
  shows "filter is_conversion (snd (fst (script L inp st))) = []"
    and "snd (script L inp st) = \<lparr>resume = Some (Some f), pdf_cache = pdf_cache st\<rparr>"
proof -
  have slot: "current_resume inp st = Some f"
    using assms(1,2) by (auto simp: current_resume_def)
  have hit: "cached_input_pdf_setup (pdf2image_convert_from_bytes L) (image_save_jpeg L)
               (pdf_cache st) (Some f) = ((Returns v, []), pdf_cache st)"
    using assms(3) by (simp add: cached_input_pdf_setup_hit)
  have "filter is_conversion (snd (fst (script L inp st))) = []
        \<and> snd (script L inp st) = \<lparr>resume = Some (Some f), pdf_cache = pdf_cache st\<rparr>"
  proof (cases "(submit1 inp \<or> submit2 inp \<or> submit3 inp) \<and> strip (input_text inp) \<noteq> []")
    case True
    then show ?thesis
      using script_valid_press [OF _ _ slot hit] by simp
  next
    case False
    then consider (idle) "\<not> submit1 inp" "\<not> submit2 inp" "\<not> submit3 inp"
      | (blank) "strip (input_text inp) = []"
      by blast
    then show ?thesis
    proof cases
      case idle
      then show ?thesis
        by (simp add: script_def pressed_and_valid_def Let_def page_head_quiet slot)
    next
      case blank
      then have "validate_inputs (input_text inp) (current_resume inp st) =
                   (False, [Warning job_description_warning])"
        by (simp add: validate_inputs_def)
      from script_rejected [OF this, of L] show ?thesis
        by (simp add: page_head_quiet slot)
    qed
  qed
  then show "filter is_conversion (snd (fst (script L inp st))) = []"
    and "snd (script L inp st) = \<lparr>resume = Some (Some f), pdf_cache = pdf_cache st\<rparr>"
    by simp_all
qed

lemma session_with_cached_image:
  assumes "list_all (\<lambda>inp. uploaded_file inp = None \<or> uploaded_file inp = Some f) presses"
    and "resume st = Some (Some f)"
    and "pdf_cache st (Some (ident f)) = Some v"
  shows "filter is_conversion (fst (session L presses st)) = []
         \<and> snd (session L presses st) = (if presses = [] then st
              else \<lparr>resume = Some (Some f), pdf_cache = pdf_cache st\<rparr>)"
  using assms
proof (induction presses arbitrary: st)
  case Nil
  then show ?case by simp
next
  case (Cons inp presses)
  let ?st' = "\<lparr>resume = Some (Some f), pdf_cache = pdf_cache st\<rparr>"
  from Cons.prems(1) have same: "uploaded_file inp = None \<or> uploaded_file inp = Some f"
    and rest: "list_all (\<lambda>inp. uploaded_file inp = None \<or> uploaded_file inp = Some f) presses"
    by simp_all
  note run = script_with_cached_image [OF same Cons.prems(2) Cons.prems(3), of L]
  have "resume ?st' = Some (Some f)" "pdf_cache ?st' (Some (ident f)) = Some v"
    using Cons.prems(3) by simp_all
  from Cons.IH [OF rest this] run show ?case
    by (cases "script L inp st") (auto split: prod.splits)
qed

subsection \<open>The model calls of a press\<close>

lemma get_gemini_response_calls:
  "filter is_model_call (snd (get_gemini_response g prompt (p # ps) job)) =
     [GenerateContent \<lparr>contents = [Text prompt, Blob p, Text job],
                       generation_config = temperature_config\<rparr>]"
  by (simp add: get_gemini_response_def Let_def split: outcome.splits)

lemma get_gemini_response_keywords_calls:
  "filter is_model_call (snd (get_gemini_response_keywords g l prompt (p # ps) job)) =
     [GenerateContent \<lparr>contents = [Text prompt, Blob p, Text job],
                       generation_config = temperature_config\<rparr>]"
  by (simp add: get_gemini_response_keywords_def Let_def)

lemma write_lines_no_call:
  "filter is_model_call (snd (write_lines labels v)) = []"
  by (induction labels) (auto split: outcome.splits prod.splits)

lemma render_keywords_no_call:
  "filter is_model_call (snd (render_keywords v)) = []"
  using write_lines_no_call [of categories v]
  by (auto simp: render_keywords_def split: prod.splits)

lemma narrative_action_calls:
  assumes "cached_input_pdf_setup (pdf2image_convert_from_bytes L) (image_save_jpeg L) c slot =
             ((Returns (p # ps), evs), c')"
  shows "filter is_model_call
           (snd (fst (narrative_action L spinner_text prompt heading job slot c))) =
         filter is_model_call evs @
         [GenerateContent \<lparr>contents = [Text prompt, Blob p, Text job],
                           generation_config = temperature_config\<rparr>]"
proof -
  obtain r2 ev2 where g: "get_gemini_response (model_generate_content L) prompt (p # ps) job =
                            (r2, ev2)"
    by (cases "get_gemini_response (model_generate_content L) prompt (p # ps) job") auto
  from get_gemini_response_calls [of "model_generate_content L" prompt p ps job] g
  have "filter is_model_call ev2 =
          [GenerateContent \<lparr>contents = [Text prompt, Blob p, Text job],
                            generation_config = temperature_config\<rparr>]"
    by simp
  with assms g show ?thesis
    by (cases r2) (simp_all add: narrative_action_def)
qed

lemma keywords_action_calls:
  assumes "cached_input_pdf_setup (pdf2image_convert_from_bytes L) (image_save_jpeg L) c slot =
             ((Returns (p # ps), evs), c')"
  shows "filter is_model_call (snd (fst (keywords_action L job slot c))) =
         filter is_model_call evs @
         [GenerateContent \<lparr>contents = [Text input_prompt2, Blob p, Text job],
                           generation_config = temperature_config\<rparr>]"
proof -
  obtain r2 ev2 where g: "get_gemini_response_keywords (model_generate_content L) (json_loads L)
                            input_prompt2 (p # ps) job = (r2, ev2)"
    by (cases "get_gemini_response_keywords (model_generate_content L) (json_loads L)
                 input_prompt2 (p # ps) job") auto
  from get_gemini_response_keywords_calls
         [of "model_generate_content L" "json_loads L" input_prompt2 p ps job] g
  have q: "filter is_model_call ev2 =
             [GenerateContent \<lparr>contents = [Text input_prompt2, Blob p, Text job],
                               generation_config = temperature_config\<rparr>]"
    by simp
  show ?thesis
  proof (cases r2)
    case (Raises e)
    with assms g q show ?thesis by (simp add: keywords_action_def)
  next
    case (Returns v)
    obtain r3 ev3 where k: "render_keywords v = (r3, ev3)"
      by (cases "render_keywords v") auto
    from render_keywords_no_call [of v] k have "filter is_model_call ev3 = []" by simp
    with assms g q Returns k show ?thesis by (simp add: keywords_action_def)
  qed
qed

text \<open>
  A run with a pressed button and valid inputs whose converter call returns a page image:
  its one model call carries that image.
\<close>

lemma script_valid_press_calls:
  assumes "submit1 inp \<or> submit2 inp \<or> submit3 inp"
    and "strip (input_text inp) \<noteq> []"
    and "current_resume inp st = Some f"
    and "cached_input_pdf_setup (pdf2image_convert_from_bytes L) (image_save_jpeg L)
           (pdf_cache st) (Some f) = ((Returns (p # ps), evs), c')"
  shows "filter is_model_call (snd (fst (script L inp st))) =
           filter is_model_call evs @ [GenerateContent (press_request p inp)]"
proof -
  have v: "validate_inputs (input_text inp) (Some f) = (True, [])"
    using assms(2) by (simp add: validate_inputs_def)
  note n = narrative_action_calls [OF assms(4)]
  note k = keywords_action_calls [OF assms(4)]
  consider (one) "submit1 inp" | (two) "\<not> submit1 inp" "submit2 inp"
    | (three) "\<not> submit1 inp" "\<not> submit2 inp" "submit3 inp"
    using assms(1) by blast
  then show ?thesis
  proof cases
    case one
    with v assms(3) show ?thesis
      using n [of "lit ''Analyzing resume...''" input_prompt1 "lit ''Resume Evaluation''"
                  "input_text inp"]
      by (simp add: script_def pressed_and_valid_def Let_def page_head_quiet case_prod_beta
          press_request_def pressed_prompt_def)
  next
    case two
    with v assms(3) show ?thesis
      using k [of "input_text inp"]
      by (simp add: script_def pressed_and_valid_def Let_def page_head_quiet case_prod_beta
          press_request_def pressed_prompt_def)
  next
    case three
    with v assms(3) show ?thesis
      using n [of "lit ''Calculating match percentage...''" input_prompt3
                  "lit ''ATS Match Result''" "input_text inp"]
      by (simp add: script_def pressed_and_valid_def Let_def page_head_quiet case_prod_beta
          press_request_def pressed_prompt_def)
  qed
qed

text \<open>
  A run that finds the file's image in the cache sends it to the model when a button is
  pressed with a job text, and calls nothing otherwise.
\<close>

lemma script_with_cached_image_calls:
  assumes "uploaded_file inp = None \<or> uploaded_file inp = Some f"
    and "resume st = Some (Some f)"
    and "pdf_cache st (Some (ident f)) = Some (p # ps)"
  shows "filter is_model_call (snd (fst (script L inp st))) =
           (if valid_press inp then [GenerateContent (press_request p inp)] else [])"
proof -
  have slot: "current_resume inp st = Some f"
    using assms(1,2) by (auto simp: current_resume_def)
  have hit: "cached_input_pdf_setup (pdf2image_convert_from_bytes L) (image_save_jpeg L)
               (pdf_cache st) (Some f) = ((Returns (p # ps), []), pdf_cache st)"
    using assms(3) by (simp add: cached_input_pdf_setup_hit)
  show ?thesis
  proof (cases "valid_press inp")
    case True
    then have pressed: "submit1 inp \<or> submit2 inp \<or> submit3 inp"
      and nonblank: "strip (input_text inp) \<noteq> []"
      by (simp_all add: valid_press_def)
    from script_valid_press_calls [OF pressed nonblank slot hit] True show ?thesis by simp
  next
    case False
    then consider (idle) "\<not> submit1 inp" "\<not> submit2 inp" "\<not> submit3 inp"
      | (blank) "strip (input_text inp) = []"
      by (auto simp: valid_press_def)
    then show ?thesis
    proof cases
      case idle
      with False show ?thesis
        by (simp add: script_def pressed_and_valid_def Let_def page_head_quiet slot)
    next
      case blank
      then have "validate_inputs (input_text inp) (current_resume inp st) =
                   (False, [Warning job_description_warning])"
        by (simp add: validate_inputs_def)
      from script_rejected [OF this, of L] False show ?thesis
        by (simp add: page_head_quiet slot)
    qed
  qed
qed

lemma session_with_cached_image_calls:
  assumes "list_all (\<lambda>inp. uploaded_file inp = None \<or> uploaded_file inp = Some f) presses"
    and "resume st = Some (Some f)"
    and "pdf_cache st (Some (ident f)) = Some (p # ps)"
  shows "filter is_model_call (fst (session L presses st)) =
           map (\<lambda>inp. GenerateContent (press_request p inp)) (filter valid_press presses)"
  using assms
proof (induction presses arbitrary: st)
  case Nil
  then show ?case by simp
next
  case (Cons inp presses)
  let ?st' = "\<lparr>resume = Some (Some f), pdf_cache = pdf_cache st\<rparr>"
  from Cons.prems(1) have same: "uploaded_file inp = None \<or> uploaded_file inp = Some f"
    and rest: "list_all (\<lambda>inp. uploaded_file inp = None \<or> uploaded_file inp = Some f) presses"
    by simp_all
  note calls = script_with_cached_image_calls [OF same Cons.prems(2) Cons.prems(3), of L]
  note next_state = script_with_cached_image(2) [OF same Cons.prems(2) Cons.prems(3), of L]
  have "resume ?st' = Some (Some f)" "pdf_cache ?st' (Some (ident f)) = Some (p # ps)"
    using Cons.prems(3) by simp_all
  from Cons.IH [OF rest this] calls next_state show ?case
    by (cases "script L inp st") (auto split: prod.splits)
qed

text \<open>
  C7. Take a run in which a button is pressed with valid inputs, the file \<open>f\<close> in the
  session's slot is not yet in the cache, and the converter succeeds with the image list
  \<open>v\<close>. That run rasterises once, \<open>v\<close> is the one page image \<open>hd v\<close>, and the run's model
  call carries it. Then take any sequence of later runs in which the upload is unchanged
  (whatever is pressed, whatever the job text). No run of it rasterises again, and every
  press in it with a job text makes its model call with that same image \<open>hd v\<close>: the model
  calls of the sequence are, press by press, the requests \<open>[prompt, hd v, input_text]\<close> of
  the pressed buttons. The cache, keyed by the identity of the file object, still holds
  \<open>v\<close> at the end, and the decorated converter returns that same \<open>v\<close> for \<open>f\<close> without
  running anything.
\<close>

theorem repeated_press_reuses_image:
  assumes "submit1 inp \<or> submit2 inp \<or> submit3 inp"
    and "strip (input_text inp) \<noteq> []"
    and "current_resume inp st = Some f"
    and "pdf_cache st (Some (ident f)) = None"
    and "input_pdf_setup (pdf2image_convert_from_bytes L) (image_save_jpeg L) (Some f) =
           (Returns v, conv_events)"
    and "list_all (\<lambda>inp. uploaded_file inp = None \<or> uploaded_file inp = Some f) presses"
  shows "filter is_conversion (snd (fst (script L inp st))) = [ConvertFromBytes (file_data f)]
       \<and> v = [hd v]
       \<and> filter is_model_call (snd (fst (script L inp st))) =
           [GenerateContent (press_request (hd v) inp)]
       \<and> pdf_cache (snd (script L inp st)) (Some (ident f)) = Some v
       \<and> filter is_conversion (fst (session L presses (snd (script L inp st)))) = []
       \<and> filter is_model_call (fst (session L presses (snd (script L inp st)))) =
           map (\<lambda>press. GenerateContent (press_request (hd v) press)) (filter valid_press presses)
       \<and> pdf_cache (snd (session L presses (snd (script L inp st)))) (Some (ident f)) = Some v
       \<and> cached_input_pdf_setup convert_from_bytes save_jpeg
             (pdf_cache (snd (session L presses (snd (script L inp st))))) (Some f) =
           ((Returns v, []), pdf_cache (snd (session L presses (snd (script L inp st)))))"
proof -
  let ?st1 = "snd (script L inp st)"
  have one: "v = [hd v]"
    using assms(5) by (auto simp: input_pdf_setup_def split: outcome.splits list.splits)
  then obtain p where v: "v = p # []" and p: "hd v = p"
    by (cases v) simp_all
  have miss: "cached_input_pdf_setup (pdf2image_convert_from_bytes L) (image_save_jpeg L)
                (pdf_cache st) (Some f) =
              ((Returns v, conv_events), (pdf_cache st)(Some (ident f) \<mapsto> v))"
    using cached_input_pdf_setup_miss [of "pdf_cache st" "Some f", OF _ assms(5)] assms(4)
    by simp
  have once: "conv_events = [ConvertFromBytes (file_data f)]"
    by (rule input_pdf_setup_conversions [OF assms(5)])
  note first = script_valid_press [OF assms(1) assms(2) assms(3) miss]
  have st1: "?st1 = \<lparr>resume = Some (Some f), pdf_cache = (pdf_cache st)(Some (ident f) \<mapsto> v)\<rparr>"
    by (rule first(1))
  have a: "filter is_conversion (snd (fst (script L inp st))) = [ConvertFromBytes (file_data f)]"
    unfolding first(2) once by simp
  have a': "filter is_model_call (snd (fst (script L inp st))) =
              [GenerateContent (press_request (hd v) inp)]"
    using script_valid_press_calls [OF assms(1) assms(2) assms(3) miss [unfolded v]] once p
    by simp
  have b: "pdf_cache ?st1 (Some (ident f)) = Some v"
    unfolding st1 by simp
  have r: "resume ?st1 = Some (Some f)"
    unfolding st1 by simp
  note later = session_with_cached_image [OF assms(6) r b, of L]
  have c: "filter is_conversion (fst (session L presses ?st1)) = []"
    using later by simp
  have c': "filter is_model_call (fst (session L presses ?st1)) =
              map (\<lambda>press. GenerateContent (press_request (hd v) press))
                (filter valid_press presses)"
    using session_with_cached_image_calls [OF assms(6) r b [unfolded v], of L] p by simp
  have d: "pdf_cache (snd (session L presses ?st1)) (Some (ident f)) = Some v"
    using later b by (cases "presses = []") simp_all
  have e: "cached_input_pdf_setup convert_from_bytes save_jpeg
             (pdf_cache (snd (session L presses ?st1))) (Some f) =
           ((Returns v, []), pdf_cache (snd (session L presses ?st1)))"
    using d by (simp add: cached_input_pdf_setup_hit)
  from a one a' b c c' d e show ?thesis by blast
qed

text \<open>
  The theorem at a session of five runs with one upload. The first press ("Tell Me About
  the Resume") rasterises the PDF. Of the four runs after it, one presses nothing and one
  has a blank job text; the two others make the session's only later model calls, both
  with the image of the first press, and nothing is rasterised: the events of the four
  runs are listed in full.
\<close>

theorem repeated_press_reuses_image_witness:
  "filter is_conversion
     (snd (fst (script (example_libs (Returns (lit ''Strong resume.'')))
         \<lparr>input_text = lit ''Data engineer'',
          uploaded_file = Some \<lparr>ident = 1, file_data = [0x25, 0x50, 0x44, 0x46]\<rparr>,
          submit1 = True, submit2 = False, submit3 = False\<rparr>
         \<lparr>resume = None, pdf_cache = Map.empty\<rparr>))) =
     [ConvertFromBytes [0x25, 0x50, 0x44, 0x46]]
   \<and> filter is_model_call
       (fst (session (example_libs (Returns (lit ''Strong resume.'')))
          [\<lparr>input_text = lit ''Data engineer'', uploaded_file = None,
            submit1 = False, submit2 = False, submit3 = True\<rparr>,
           \<lparr>input_text = lit ''Data engineer'', uploaded_file = None,
            submit1 = False, submit2 = False, submit3 = False\<rparr>,
           \<lparr>input_text = lit '' '', uploaded_file = None,
            submit1 = False, submit2 = True, submit3 = False\<rparr>,
           \<lparr>input_text = lit ''Data engineer'',
            uploaded_file = Some \<lparr>ident = 1, file_data = [0x25, 0x50, 0x44, 0x46]\<rparr>,
            submit1 = True, submit2 = False, submit3 = False\<rparr>]
          (snd (script (example_libs (Returns (lit ''Strong resume.'')))
             \<lparr>input_text = lit ''Data engineer'',
              uploaded_file = Some \<lparr>ident = 1, file_data = [0x25, 0x50, 0x44, 0x46]\<rparr>,
              submit1 = True, submit2 = False, submit3 = False\<rparr>
             \<lparr>resume = None, pdf_cache = Map.empty\<rparr>)))) =
     [GenerateContent
        \<lparr>contents = [Text input_prompt3,
                     Blob [(lit ''mime_type'', lit ''image/jpeg''), (lit ''data'', lit ''JVBERg=='')],
                     Text (lit ''Data engineer'')],
         generation_config = temperature_config\<rparr>,
      GenerateContent
        \<lparr>contents = [Text input_prompt1,
                     Blob [(lit ''mime_type'', lit ''image/jpeg''), (lit ''data'', lit ''JVBERg=='')],
                     Text (lit ''Data engineer'')],
         generation_config = temperature_config\<rparr>]
   \<and> session (example_libs (Returns (lit ''Strong resume.'')))
       [\<lparr>input_text = lit ''Data engineer'', uploaded_file = None,
         submit1 = False, submit2 = False, submit3 = True\<rparr>,
        \<lparr>input_text = lit ''Data engineer'', uploaded_file = None,
         submit1 = False, submit2 = False, submit3 = False\<rparr>,
        \<lparr>input_text = lit '' '', uploaded_file = None,
         submit1 = False, submit2 = True, submit3 = False\<rparr>,
        \<lparr>input_text = lit ''Data engineer'',
         uploaded_file = Some \<lparr>ident = 1, file_data = [0x25, 0x50, 0x44, 0x46]\<rparr>,
         submit1 = True, submit2 = False, submit3 = False\<rparr>]
       (snd (script (example_libs (Returns (lit ''Strong resume.'')))
          \<lparr>input_text = lit ''Data engineer'',
           uploaded_file = Some \<lparr>ident = 1, file_data = [0x25, 0x50, 0x44, 0x46]\<rparr>,
           submit1 = True, submit2 = False, submit3 = False\<rparr>
          \<lparr>resume = None, pdf_cache = Map.empty\<rparr>)) =
     ([SetPageConfig (lit ''ATS Resume Scanner''), Header (lit ''Application Tracking System''),
       Spinner (lit ''Calculating match percentage...''),
       GenerateContent
         \<lparr>contents = [Text input_prompt3,
                      Blob [(lit ''mime_type'', lit ''image/jpeg''), (lit ''data'', lit ''JVBERg=='')],
                      Text (lit ''Data engineer'')],
          generation_config = temperature_config\<rparr>,
       Subheader (lit ''ATS Match Result''), Write (lit ''Strong resume.''),
       SetPageConfig (lit ''ATS Resume Scanner''), Header (lit ''Application Tracking System''),
       SetPageConfig (lit ''ATS Resume Scanner''), Header (lit ''Application Tracking System''),
       Warning (lit ''Please enter a job description.''),
       SetPageConfig (lit ''ATS Resume Scanner''), Header (lit ''Application Tracking System''),
       Success (lit ''PDF uploaded successfully''),
       Spinner (lit ''Analyzing resume...''),
       GenerateContent
         \<lparr>contents = [Text input_prompt1,
                      Blob [(lit ''mime_type'', lit ''image/jpeg''), (lit ''data'', lit ''JVBERg=='')],
                      Text (lit ''Data engineer'')],
          generation_config = temperature_config\<rparr>,
       Subheader (lit ''Resume Evaluation''), Write (lit ''Strong resume.'')],
      \<lparr>resume = Some (Some \<lparr>ident = 1, file_data = [0x25, 0x50, 0x44, 0x46]\<rparr>),
       pdf_cache = Map.empty(Some 1 \<mapsto>
         [[(lit ''mime_type'', lit ''image/jpeg''), (lit ''data'', lit ''JVBERg=='')]])\<rparr>)"
proof -
  let ?f = "\<lparr>ident = 1, file_data = [0x25, 0x50, 0x44, 0x46]\<rparr>"
  let ?part = "[(lit ''mime_type'', lit ''image/jpeg''), (lit ''data'', lit ''JVBERg=='')]"
  let ?L = "example_libs (Returns (lit ''Strong resume.''))"
  let ?inp = "\<lparr>input_text = lit ''Data engineer'', uploaded_file = Some ?f,
               submit1 = True, submit2 = False, submit3 = False\<rparr>"
  let ?st = "\<lparr>resume = None, pdf_cache = Map.empty\<rparr>"
  let ?match = "\<lparr>input_text = lit ''Data engineer'', uploaded_file = None,
                 submit1 = False, submit2 = False, submit3 = True\<rparr>"
  let ?idle = "\<lparr>input_text = lit ''Data engineer'', uploaded_file = None,
                submit1 = False, submit2 = False, submit3 = False\<rparr>"
  let ?blank = "\<lparr>input_text = lit '' '', uploaded_file = None,
                 submit1 = False, submit2 = True, submit3 = False\<rparr>"
  let ?presses = "[?match, ?idle, ?blank, ?inp]"
  let ?st1 = "\<lparr>resume = Some (Some ?f), pdf_cache = Map.empty(Some 1 \<mapsto> [?part])\<rparr>"
  have p1: "submit1 ?inp \<or> submit2 ?inp \<or> submit3 ?inp" by simp
  have p2: "strip (input_text ?inp) \<noteq> []" by (simp add: strip_def isspace_def)
  have p3: "current_resume ?inp ?st = Some ?f" by (simp add: current_resume_def)
  have p4: "pdf_cache ?st (Some (ident ?f)) = None" by simp
  have p5: "input_pdf_setup (pdf2image_convert_from_bytes ?L) (image_save_jpeg ?L) (Some ?f) =
              (Returns [?part], [ConvertFromBytes [0x25, 0x50, 0x44, 0x46]])"
    by (simp add: example_libs_def input_pdf_setup_def one_page_converter_def plain_encoder_def
        b64_char_def b64_alphabet_def)
  have p6: "list_all (\<lambda>inp. uploaded_file inp = None \<or> uploaded_file inp = Some ?f) ?presses"
    by simp
  note t = repeated_press_reuses_image [OF p1 p2 p3 p4 p5 p6]
  have a: "filter is_conversion (snd (fst (script ?L ?inp ?st))) =
             [ConvertFromBytes (file_data ?f)]"
    using t by blast
  have valid: "filter valid_press ?presses = [?match, ?inp]"
    by (simp add: valid_press_def strip_def isspace_def)
  have "filter is_model_call (fst (session ?L ?presses (snd (script ?L ?inp ?st)))) =
          map (\<lambda>press. GenerateContent (press_request (hd [?part]) press))
            (filter valid_press ?presses)"
    using t by blast
  then have b: "filter is_model_call (fst (session ?L ?presses (snd (script ?L ?inp ?st)))) =
             [GenerateContent \<lparr>contents = [Text input_prompt3, Blob ?part,
                                            Text (lit ''Data engineer'')],
                               generation_config = temperature_config\<rparr>,
              GenerateContent \<lparr>contents = [Text input_prompt1, Blob ?part,
                                            Text (lit ''Data engineer'')],
                               generation_config = temperature_config\<rparr>]"
    unfolding valid by (simp add: press_request_def pressed_prompt_def)
  have first: "snd (script ?L ?inp ?st) = ?st1"
    by (simp add: script_def pressed_and_valid_def validate_inputs_def strip_def isspace_def
        current_resume_def page_head_def narrative_action_def cached_input_pdf_setup_def
        input_pdf_setup_def example_libs_def one_page_converter_def plain_encoder_def
        get_gemini_response_def b64_char_def b64_alphabet_def)
  have c: "session ?L ?presses ?st1 =
     ([SetPageConfig (lit ''ATS Resume Scanner''), Header (lit ''Application Tracking System''),
       Spinner (lit ''Calculating match percentage...''),
       GenerateContent \<lparr>contents = [Text input_prompt3, Blob ?part,
                                     Text (lit ''Data engineer'')],
                        generation_config = temperature_config\<rparr>,
       Subheader (lit ''ATS Match Result''), Write (lit ''Strong resume.''),
       SetPageConfig (lit ''ATS Resume Scanner''), Header (lit ''Application Tracking System''),
       SetPageConfig (lit ''ATS Resume Scanner''), Header (lit ''Application Tracking System''),
       Warning (lit ''Please enter a job description.''),
       SetPageConfig (lit ''ATS Resume Scanner''), Header (lit ''Application Tracking System''),
       Success (lit ''PDF uploaded successfully''),
       Spinner (lit ''Analyzing resume...''),
       GenerateContent \<lparr>contents = [Text input_prompt1, Blob ?part,
                                     Text (lit ''Data engineer'')],
                        generation_config = temperature_config\<rparr>,
       Subheader (lit ''Resume Evaluation''), Write (lit ''Strong resume.'')],
      ?st1)"
    by (simp add: script_def pressed_and_valid_def validate_inputs_def strip_def isspace_def
        current_resume_def page_head_def narrative_action_def cached_input_pdf_setup_def
        example_libs_def get_gemini_response_def job_description_warning_def)
  from a b c show ?thesis unfolding first by simp
qed

end
